theory Spec2Isabelle
  imports Complex_Main "HOL-Library.Sublist" "HOL-Library.Product_Lexorder"
begin

section \<open>Python values and exceptions\<close>

text \<open>
  The program (\<^verbatim>\<open>src/contrib_counter/count_contribs.py\<close>) works on the parsed JSON body
  of each HTTP response. A JSON value is modelled as Python holds it after
  \<^verbatim>\<open>response.json()\<close>: \<^verbatim>\<open>None\<close>, \<^verbatim>\<open>bool\<close>, \<^verbatim>\<open>int\<close>, \<^verbatim>\<open>str\<close>, \<^verbatim>\<open>list\<close> and \<^verbatim>\<open>dict\<close>
  (an association list in insertion order, its keys distinct and looked up by \<open>map_of\<close>).
  Fractional JSON numbers are left out, and strings are ASCII: a \<^typ>\<open>char\<close> is a byte.
\<close>

datatype json =
    JNull
  | JBool bool
  | JNum int
  | JStr string
  | JList "json list"
  | JObj "(string \<times> json) list"

text \<open>
  Every exception the modelled code can raise is a value. \<open>ConnectionError\<close> is what
  \<^verbatim>\<open>requests.post\<close> raises when the network delivers nothing more. \<open>Unsupported\<close> is no
  Python exception: it marks an input on which the model says nothing (formatting a
  cursor that is not a string, a timestamp not in the API's format).
\<close>

datatype error = KeyError | IndexError | TypeError | ValueError | ConnectionError | Unsupported

type_synonym 'a result = "error + 'a"

definition andthen :: "'a result \<Rightarrow> ('a \<Rightarrow> 'b result) \<Rightarrow> 'b result" where
  "andthen m f = (case m of Inl e \<Rightarrow> Inl e | Inr x \<Rightarrow> f x)"

text \<open>\<^verbatim>\<open>obj[k]\<close> for a string key \<open>k\<close>: only a dict accepts it.\<close>

fun getitem_str :: "json \<Rightarrow> string \<Rightarrow> json result" where
  "getitem_str (JObj kvs) k = (case map_of kvs k of None \<Rightarrow> Inl KeyError | Some v \<Rightarrow> Inr v)"
| "getitem_str _ k = Inl TypeError"

text \<open>
  \<^verbatim>\<open>obj[i]\<close> for an integer \<open>i\<close>: a list or a string is indexed (negative indices count
  from the end), a dict has no integer key, anything else is not subscriptable.
\<close>

definition py_index :: "nat \<Rightarrow> int \<Rightarrow> nat option" where
  "py_index len i =
     (if 0 \<le> i \<and> i < int len then Some (nat i)
      else if i < 0 \<and> - int len \<le> i then Some (nat (int len + i))
      else None)"

fun getitem_int :: "json \<Rightarrow> int \<Rightarrow> json result" where
  "getitem_int (JList xs) i =
     (case py_index (length xs) i of None \<Rightarrow> Inl IndexError | Some k \<Rightarrow> Inr (xs ! k))"
| "getitem_int (JStr s) i =
     (case py_index (length s) i of None \<Rightarrow> Inl IndexError | Some k \<Rightarrow> Inr (JStr [s ! k]))"
| "getitem_int (JObj kvs) i = Inl KeyError"
| "getitem_int _ i = Inl TypeError"

text \<open>\<^verbatim>\<open>k in obj\<close> for a string \<open>k\<close>: a key of a dict, an element of a list, a substring.\<close>

fun contains_str :: "string \<Rightarrow> json \<Rightarrow> bool result" where
  "contains_str k (JObj kvs) = Inr (k \<in> set (map fst kvs))"
| "contains_str k (JList xs) = Inr (JStr k \<in> set xs)"
| "contains_str k (JStr s) = Inr (sublist k s)"
| "contains_str k _ = Inl TypeError"

text \<open>Iteration (\<^verbatim>\<open>for x in obj\<close>, \<^verbatim>\<open>list.extend(obj)\<close>): a dict yields its keys.\<close>

fun py_iter :: "json \<Rightarrow> json list result" where
  "py_iter (JList xs) = Inr xs"
| "py_iter (JObj kvs) = Inr (map (\<lambda>kv. JStr (fst kv)) kvs)"
| "py_iter (JStr s) = Inr (map (\<lambda>c. JStr [c]) s)"
| "py_iter _ = Inl TypeError"

text \<open>Truth value of a JSON value in a condition.\<close>

fun py_truthy :: "json \<Rightarrow> bool" where
  "py_truthy JNull = False"
| "py_truthy (JBool b) = b"
| "py_truthy (JNum n) = (n \<noteq> 0)"
| "py_truthy (JStr s) = (s \<noteq> [])"
| "py_truthy (JList xs) = (xs \<noteq> [])"
| "py_truthy (JObj kvs) = (kvs \<noteq> [])"

text \<open>
  \<^verbatim>\<open>f"{cursor}"\<close>: the parameter is annotated \<^verbatim>\<open>str\<close>, and a string formats as itself.
  Python's \<^verbatim>\<open>str()\<close> of the other values is not modelled.
\<close>

fun py_format :: "json \<Rightarrow> string result" where
  "py_format (JStr s) = Inr s"
| "py_format _ = Inl Unsupported"

section \<open>Building the query\<close>

text \<open>
  \<^verbatim>\<open>get_contributions_query\<close> (lines 11 to 87). The f-string is kept line by line; the
  doubled braces of the source are single braces of the text, and \<^verbatim>\<open>cursor = None\<close> is
  \<open>JNull\<close>.
\<close>

definition get_contributions_query :: "string \<Rightarrow> string \<Rightarrow> json \<Rightarrow> string result" where
  \<open>get_contributions_query username from_date cursor =
     andthen (if py_truthy cursor
              then andthen (py_format cursor) (\<lambda>c. Inr ('', after: "'' @ c @ ''"''))
              else Inr '''')
       (\<lambda>after_clause. Inr (concat [
          ''\<newline>'',
          ''    {\<newline>'',
          ''      user(login: "'', username, ''") {\<newline>'',
          ''        contributionsCollection(from: "'', from_date, ''T00:00:00Z") {\<newline>'',
          ''          commitContributionsByRepository(maxRepositories: 100) {\<newline>'',
          ''            contributions(first: 100'', after_clause, '') {\<newline>'',
          ''              nodes {\<newline>'',
          ''                occurredAt\<newline>'',
          ''              }\<newline>'',
          ''              pageInfo {\<newline>'',
          ''                hasNextPage\<newline>'',
          ''                endCursor\<newline>'',
          ''              }\<newline>'',
          ''            }\<newline>'',
          ''          }\<newline>'',
          ''          issueContributions(first: 100'', after_clause, '') {\<newline>'',
          ''            nodes {\<newline>'',
          ''              occurredAt\<newline>'',
          ''            }\<newline>'',
          ''            pageInfo {\<newline>'',
          ''              hasNextPage\<newline>'',
          ''              endCursor\<newline>'',
          ''            }\<newline>'',
          ''          }\<newline>'',
          ''          pullRequestContributions(first: 100'', after_clause, '') {\<newline>'',
          ''            nodes {\<newline>'',
          ''              occurredAt\<newline>'',
          ''            }\<newline>'',
          ''            pageInfo {\<newline>'',
          ''              hasNextPage\<newline>'',
          ''              endCursor\<newline>'',
          ''            }\<newline>'',
          ''          }\<newline>'',
          ''          pullRequestReviewContributions(first: 100'', after_clause, '') {\<newline>'',
          ''            nodes {\<newline>'',
          ''              occurredAt\<newline>'',
          ''            }\<newline>'',
          ''            pageInfo {\<newline>'',
          ''              hasNextPage\<newline>'',
          ''              endCursor\<newline>'',
          ''            }\<newline>'',
          ''          }\<newline>'',
          ''          repositoryContributions(first: 100'', after_clause, '') {\<newline>'',
          ''            nodes {\<newline>'',
          ''              occurredAt\<newline>'',
          ''            }\<newline>'',
          ''            pageInfo {\<newline>'',
          ''              hasNextPage\<newline>'',
          ''              endCursor\<newline>'',
          ''            }\<newline>'',
          ''          }\<newline>'',
          ''          restrictedContributionsCount  # Includes restricted contributions (e.g., private contributions)\<newline>'',
          ''          contributionCalendar {\<newline>'',
          ''            totalContributions\<newline>'',
          ''            weeks {\<newline>'',
          ''              contributionDays {\<newline>'',
          ''                contributionCount\<newline>'',
          ''                date\<newline>'',
          ''              }\<newline>'',
          ''            }\<newline>'',
          ''          }\<newline>'',
          ''        }\<newline>'',
          ''      }\<newline>'',
          ''    }\<newline>'',
          ''    '']))\<close>

section \<open>Reading one response\<close>

text \<open>
  \<^verbatim>\<open>extract_contributions\<close> (lines 130 to 148). The \<^verbatim>\<open>for\<close> loop over the repositories is
  \<open>extend_repos\<close>, with the list built so far as its first argument.
\<close>

fun extend_repos :: "json list \<Rightarrow> json list \<Rightarrow> json list result" where
  "extend_repos contributions [] = Inr contributions"
| "extend_repos contributions (repo_contrib # rest) =
     andthen (getitem_str repo_contrib ''contributions'') (\<lambda>c.
     andthen (getitem_str c ''nodes'') (\<lambda>nodes.
     andthen (py_iter nodes) (\<lambda>ns.
     extend_repos (contributions @ ns) rest)))"

definition extract_contributions :: "json \<Rightarrow> json list result" where
  "extract_contributions contributions_data =
     andthen (getitem_str contributions_data ''commitContributionsByRepository'') (\<lambda>repos.
     andthen (py_iter repos) (\<lambda>repo_list.
     andthen (extend_repos [] repo_list) (\<lambda>contributions1.
     andthen (getitem_str contributions_data ''issueContributions'') (\<lambda>issues.
     andthen (getitem_str issues ''nodes'') (\<lambda>issue_nodes.
     andthen (py_iter issue_nodes) (\<lambda>ns2.
     andthen (getitem_str contributions_data ''pullRequestContributions'') (\<lambda>prs.
     andthen (getitem_str prs ''nodes'') (\<lambda>pr_nodes.
     andthen (py_iter pr_nodes) (\<lambda>ns3.
     Inr ((contributions1 @ ns2) @ ns3))))))))))"

text \<open>\<^verbatim>\<open>get_page_info\<close> (lines 151 to 166): the returned dict has the two keys.\<close>

definition get_page_info :: "json \<Rightarrow> json result" where
  "get_page_info contributions_data =
     andthen (getitem_str contributions_data ''commitContributionsByRepository'') (\<lambda>repos.
     andthen (getitem_int repos 0) (\<lambda>repo.
     andthen (getitem_str repo ''contributions'') (\<lambda>contribs.
     andthen (getitem_str contribs ''pageInfo'') (\<lambda>commit_page_info.
     andthen (getitem_str commit_page_info ''hasNextPage'') (\<lambda>h.
     andthen (getitem_str commit_page_info ''endCursor'') (\<lambda>c.
     Inr (JObj [(''hasNextPage'', h), (''endCursor'', c)])))))))"

section \<open>The network and the fetch loop\<close>

text \<open>
  The world the program runs in. \<open>responses\<close> is the queue of JSON bodies the endpoint
  will deliver, in order; \<open>sent\<close> lists the query texts posted so far; \<open>console\<close> lists
  the error payloads printed; \<open>calls\<close> lists the \<^verbatim>\<open>from_date\<close> of every invocation of
  \<^verbatim>\<open>fetch_contributions\<close> (a trace kept by the model, so that invocations can be
  counted).
\<close>

record world =
  responses :: "json list"
  sent :: "string list"
  console :: "json list"
  calls :: "string list"

type_synonym header = "(string \<times> string) list"

text \<open>
  \<^verbatim>\<open>requests.post(...)\<close> followed by \<^verbatim>\<open>response.json()\<close> (lines 108 to 111): the request
  is recorded, and the next body of the queue is the answer. With an empty queue the
  call raises, and the exception is not caught anywhere in the program.
\<close>

definition requests_post :: "string \<Rightarrow> header \<Rightarrow> world \<Rightarrow> json result \<times> world" where
  "requests_post query header w =
     (case responses w of
        [] \<Rightarrow> (Inl ConnectionError, w\<lparr>sent := sent w @ [query]\<rparr>)
      | data # rest \<Rightarrow> (Inr data, w\<lparr>responses := rest, sent := sent w @ [query]\<rparr>))"

text \<open>
  The body of the \<^verbatim>\<open>while True\<close> loop after the response is parsed (lines 113 to 125),
  as the way the iteration ends: \<open>ErrorsBreak\<close> is the \<^verbatim>\<open>break\<close> of line 115 with the
  payload printed, \<open>LastPage\<close> the \<^verbatim>\<open>break\<close> of line 125, \<open>NextPage\<close> the assignment of
  line 123; each carries the \<^verbatim>\<open>contributions\<close> list as it then stands.
\<close>

datatype outcome =
    ErrorsBreak json
  | LastPage "json list"
  | NextPage "json list" json

definition loop_body :: "json list \<Rightarrow> json \<Rightarrow> outcome result" where
  "loop_body contributions data =
     andthen (contains_str ''errors'' data) (\<lambda>has_errors.
     if has_errors
     then andthen (getitem_str data ''errors'') (\<lambda>errs. Inr (ErrorsBreak errs))
     else
       andthen (getitem_str data ''data'') (\<lambda>d.
       andthen (getitem_str d ''user'') (\<lambda>u.
       andthen (getitem_str u ''contributionsCollection'') (\<lambda>contributions_data.
       andthen (extract_contributions contributions_data) (\<lambda>new.
       andthen (get_page_info contributions_data) (\<lambda>page_info.
       andthen (getitem_str page_info ''hasNextPage'') (\<lambda>h.
       if py_truthy h
       then andthen (getitem_str page_info ''endCursor'') (\<lambda>c.
              Inr (NextPage (contributions @ new) c))
       else Inr (LastPage (contributions @ new)))))))))"

lemma requests_post_shorter:
  "requests_post query header w = (Inr data, w') \<Longrightarrow> length (responses w') < length (responses w)"
  by (auto simp: requests_post_def split: list.splits)

text \<open>
  The \<^verbatim>\<open>while True\<close> loop of \<^verbatim>\<open>fetch_contributions\<close> (lines 106 to 127), with the local
  variables \<^verbatim>\<open>contributions\<close> and \<^verbatim>\<open>cursor\<close> as arguments. Every iteration takes one body
  from the queue, so the loop ends; a server that never stops reporting a next page
  shows as the \<open>ConnectionError\<close> of the exhausted queue.
\<close>

function fetch_loop ::
  "string \<Rightarrow> header \<Rightarrow> string \<Rightarrow> json list \<Rightarrow> json \<Rightarrow> world \<Rightarrow> json list result \<times> world" where
  "fetch_loop username header from_date contributions cursor w =
     (case get_contributions_query username from_date cursor of
        Inl e \<Rightarrow> (Inl e, w)
      | Inr query \<Rightarrow>
          (case requests_post query header w of
             (Inl e, w') \<Rightarrow> (Inl e, w')
           | (Inr data, w') \<Rightarrow>
               (case loop_body contributions data of
                  Inl e \<Rightarrow> (Inl e, w')
                | Inr (ErrorsBreak errs) \<Rightarrow> (Inr contributions, w'\<lparr>console := console w' @ [errs]\<rparr>)
                | Inr (LastPage cs) \<Rightarrow> (Inr cs, w')
                | Inr (NextPage cs c) \<Rightarrow> fetch_loop username header from_date cs c w')))"
  by pat_completeness auto
termination
  by (relation "measure (\<lambda>(username, header, from_date, contributions, cursor, w). length (responses w))")
     (auto dest: requests_post_shorter [OF sym])

declare fetch_loop.simps [simp del]

definition fetch_contributions ::
  "string \<Rightarrow> header \<Rightarrow> string \<Rightarrow> world \<Rightarrow> json list result \<times> world" where
  "fetch_contributions username header from_date w =
     fetch_loop username header from_date [] JNull (w\<lparr>calls := calls w @ [from_date]\<rparr>)"

section \<open>Year windows\<close>

text \<open>
  A \<^verbatim>\<open>datetime\<close> as \<^verbatim>\<open>strptime(..., "%Y-%m-%d")\<close> gives it: the time of day is midnight
  and plays no part. \<open>valid_date\<close> is the range check of the \<^verbatim>\<open>datetime\<close> constructor,
  which \<^verbatim>\<open>replace\<close> runs on the new fields.
\<close>

record datetime =
  year :: int
  month :: int
  day :: int

definition is_leap :: "int \<Rightarrow> bool" where
  "is_leap y = (y mod 4 = 0 \<and> (y mod 100 \<noteq> 0 \<or> y mod 400 = 0))"

definition days_in_month :: "int \<Rightarrow> int \<Rightarrow> int" where
  "days_in_month y m =
     (if m = 2 then (if is_leap y then 29 else 28)
      else if m = 4 \<or> m = 6 \<or> m = 9 \<or> m = 11 then 30 else 31)"

definition valid_date :: "datetime \<Rightarrow> bool" where
  "valid_date d =
     (1 \<le> year d \<and> year d \<le> 9999 \<and> 1 \<le> month d \<and> month d \<le> 12 \<and>
      1 \<le> day d \<and> day d \<le> days_in_month (year d) (month d))"

definition replace_year :: "datetime \<Rightarrow> int \<Rightarrow> datetime result" where
  "replace_year d y = (if valid_date (d\<lparr>year := y\<rparr>) then Inr (d\<lparr>year := y\<rparr>) else Inl ValueError)"

definition digit :: "int \<Rightarrow> char" where
  "digit n = ''0123456789'' ! nat (n mod 10)"

text \<open>
  \<^verbatim>\<open>strftime("%Y-%m-%d")\<close>. The month and the day have two digits. The year is written
  as the C library writes it; CPython on glibc does not pad it, so that the year 999
  gives \<^verbatim>\<open>999-05-05\<close> (other platforms pad to four digits). From the year 1000 on the
  two agree.
\<close>

definition year_digits :: "int \<Rightarrow> string" where
  "year_digits y =
     (if y < 10 then [digit y]
      else if y < 100 then [digit (y div 10), digit y]
      else if y < 1000 then [digit (y div 100), digit (y div 10), digit y]
      else [digit (y div 1000), digit (y div 100), digit (y div 10), digit y])"

definition strftime_ymd :: "datetime \<Rightarrow> string" where
  "strftime_ymd d =
     year_digits (year d)
     @ ''-'' @ [digit (month d div 10), digit (month d)]
     @ ''-'' @ [digit (day d div 10), digit (day d)]"

text \<open>\<^verbatim>\<open>range(n)\<close>: empty when \<open>n\<close> is zero or negative.\<close>

definition py_range :: "int \<Rightarrow> int list" where
  "py_range n = map int [0..<nat n]"

text \<open>
  \<^verbatim>\<open>fetch_all_contributions\<close> (lines 169 to 190): \<open>fetch_years\<close> is the \<^verbatim>\<open>for\<close> loop over
  the year offsets still to come, with the list built so far.
\<close>

fun fetch_years ::
  "string \<Rightarrow> header \<Rightarrow> datetime \<Rightarrow> json list \<Rightarrow> int list \<Rightarrow> world \<Rightarrow> json list result \<times> world" where
  "fetch_years username header start_date contributions [] w = (Inr contributions, w)"
| "fetch_years username header start_date contributions (year_offset # rest) w =
     (case replace_year start_date (year start_date + year_offset) of
        Inl e \<Rightarrow> (Inl e, w)
      | Inr current_start \<Rightarrow>
          (case fetch_contributions username header (strftime_ymd current_start) w of
             (Inl e, w') \<Rightarrow> (Inl e, w')
           | (Inr new, w') \<Rightarrow>
               fetch_years username header start_date (contributions @ new) rest w'))"

definition fetch_all_contributions ::
  "string \<Rightarrow> header \<Rightarrow> datetime \<Rightarrow> datetime \<Rightarrow> world \<Rightarrow> json list result \<times> world" where
  "fetch_all_contributions username header start_date end_date w =
     fetch_years username header start_date [] (py_range (year end_date - year start_date)) w"

text \<open>\<^verbatim>\<open>process_contributions\<close> (line 202), the list comprehension.\<close>

fun process_contributions :: "json list \<Rightarrow> json list result" where
  "process_contributions [] = Inr []"
| "process_contributions (contribution # rest) =
     andthen (getitem_str contribution ''occurredAt'') (\<lambda>d.
     andthen (process_contributions rest) (\<lambda>ds. Inr (d # ds)))"

section \<open>The heatmap grid\<close>

text \<open>
  A parsed timestamp (an element of the \<^verbatim>\<open>DatetimeIndex\<close> that \<^verbatim>\<open>pd.to_datetime(dates,
  utc=True)\<close> returns). The model reads the format the API writes, \<^verbatim>\<open>YYYY-MM-DDTHH:MM:SSZ\<close>,
  within the years a nanosecond timestamp can hold; on any other element it answers
  \<open>Unsupported\<close>.
\<close>

record timestamp =
  t_year :: int
  t_month :: int
  t_day :: int
  t_hour :: int
  t_minute :: int
  t_second :: int

definition digit_val :: "char \<Rightarrow> int option" where
  "digit_val c =
     (let n = (of_char c :: nat) in if 48 \<le> n \<and> n \<le> 57 then Some (int n - 48) else None)"

fun number_from :: "int \<Rightarrow> string \<Rightarrow> int option" where
  "number_from acc [] = Some acc"
| "number_from acc (c # cs) =
     (case digit_val c of None \<Rightarrow> None | Some v \<Rightarrow> number_from (10 * acc + v) cs)"

definition parse_timestamp :: "string \<Rightarrow> timestamp option" where
  "parse_timestamp s =
     (if length s = 20 \<and> s ! 4 = CHR ''-'' \<and> s ! 7 = CHR ''-'' \<and> s ! 10 = CHR ''T'' \<and>
         s ! 13 = CHR '':'' \<and> s ! 16 = CHR '':'' \<and> s ! 19 = CHR ''Z''
      then
        (case number_from 0 (take 4 s) of None \<Rightarrow> None | Some y \<Rightarrow>
        (case number_from 0 (take 2 (drop 5 s)) of None \<Rightarrow> None | Some m \<Rightarrow>
        (case number_from 0 (take 2 (drop 8 s)) of None \<Rightarrow> None | Some d \<Rightarrow>
        (case number_from 0 (take 2 (drop 11 s)) of None \<Rightarrow> None | Some h \<Rightarrow>
        (case number_from 0 (take 2 (drop 14 s)) of None \<Rightarrow> None | Some mi \<Rightarrow>
        (case number_from 0 (take 2 (drop 17 s)) of None \<Rightarrow> None | Some sec \<Rightarrow>
           if 1678 \<le> y \<and> y \<le> 2261 \<and> 1 \<le> m \<and> m \<le> 12 \<and> 1 \<le> d \<and> d \<le> days_in_month y m \<and>
              h < 24 \<and> mi < 60 \<and> sec < 60
           then Some \<lparr>t_year = y, t_month = m, t_day = d,
                       t_hour = h, t_minute = mi, t_second = sec\<rparr>
           else None))))))
      else None)"

fun pd_to_datetime :: "json list \<Rightarrow> timestamp list result" where
  "pd_to_datetime [] = Inr []"
| "pd_to_datetime (JStr s # rest) =
     (case parse_timestamp s of
        None \<Rightarrow> Inl Unsupported
      | Some t \<Rightarrow> andthen (pd_to_datetime rest) (\<lambda>ts. Inr (t # ts)))"
| "pd_to_datetime (_ # rest) = Inl Unsupported"

text \<open>
  The calendar behind \<^verbatim>\<open>.dt.weekday\<close>, \<^verbatim>\<open>.dt.isocalendar().week\<close> and the ordering of
  timestamps: the proleptic Gregorian day number (day 1 is 0001-01-01, a Monday), the
  weekday with Monday as 0, and the ISO 8601 week number.
\<close>

definition days_before_year :: "int \<Rightarrow> int" where
  "days_before_year y = (y - 1) * 365 + (y - 1) div 4 - (y - 1) div 100 + (y - 1) div 400"

definition days_before_month :: "int \<Rightarrow> int \<Rightarrow> int" where
  "days_before_month y m = sum_list (map (days_in_month y) [1..m - 1])"

definition ordinal :: "int \<Rightarrow> int \<Rightarrow> int \<Rightarrow> int" where
  "ordinal y m d = days_before_year y + days_before_month y m + d"

definition weekday :: "timestamp \<Rightarrow> int" where
  "weekday t = (ordinal (t_year t) (t_month t) (t_day t) + 6) mod 7"

definition iso_week1_monday :: "int \<Rightarrow> int" where
  "iso_week1_monday y =
     (let firstday = ordinal y 1 1;
          firstweekday = (firstday + 6) mod 7;
          week1monday = firstday - firstweekday
      in if firstweekday > 3 then week1monday + 7 else week1monday)"

definition iso_week :: "timestamp \<Rightarrow> int" where
  "iso_week t =
     (let y = t_year t;
          today = ordinal y (t_month t) (t_day t);
          week = (today - iso_week1_monday y) div 7
      in if week < 0 then (today - iso_week1_monday (y - 1)) div 7 + 1
         else if week \<ge> 52 \<and> today \<ge> iso_week1_monday (y + 1) then 1
         else week + 1)"

definition instant :: "timestamp \<Rightarrow> int" where
  "instant t =
     ordinal (t_year t) (t_month t) (t_day t) * 86400
     + t_hour t * 3600 + t_minute t * 60 + t_second t"

text \<open>
  A row of the data frame \<^verbatim>\<open>df\<close> with the columns it has after line 221.
\<close>

record row =
  row_date :: timestamp
  row_count :: int
  row_weekday :: int
  row_week :: int
  row_year :: int

text \<open>
  Lines 213 to 217: every timestamp gets \<^verbatim>\<open>count = 1\<close>, and \<^verbatim>\<open>groupby("date").sum()\<close>
  makes one row per distinct value of the \<^verbatim>\<open>date\<close> column, in ascending order, with the
  counts of the equal values added up. The column holds the full timestamps.
\<close>

definition groupby_date_sum :: "timestamp list \<Rightarrow> (timestamp \<times> int) list" where
  "groupby_date_sum ts =
     map (\<lambda>t. (t, sum_list (map (\<lambda>u. 1) (filter (\<lambda>u. u = t) ts))))
         (sort_key instant (remdups ts))"

text \<open>Lines 219 to 221, the three derived columns.\<close>

definition add_columns :: "timestamp \<times> int \<Rightarrow> row" where
  "add_columns r =
     \<lparr>row_date = fst r, row_count = snd r, row_weekday = weekday (fst r),
      row_week = iso_week (fst r), row_year = t_year (fst r)\<rparr>"

text \<open>
  A labelled grid: a \<^verbatim>\<open>DataFrame\<close> with its row index, its columns (pairs of year and
  week) and its cells by row.
\<close>

record 'i frame =
  index :: "'i list"
  columns :: "(int \<times> int) list"
  cells :: "rat list list"

text \<open>
  \<^verbatim>\<open>df.pivot_table(index="weekday", columns=["year", "week"], values="count",
  fill_value=0)\<close> (lines 228 to 230). The rows are the weekdays that occur, the columns
  the (year, week) pairs that occur, both sorted; \<^verbatim>\<open>aggfunc\<close> is not given, so a cell is the
  mean (the default) of the \<^verbatim>\<open>count\<close> values of its rows, and a cell with no row is the
  fill value.
\<close>

definition pivot_cell :: "row list \<Rightarrow> int \<Rightarrow> int \<times> int \<Rightarrow> rat" where
  "pivot_cell df w c =
     (let counts = map row_count
            (filter (\<lambda>r. row_weekday r = w \<and> (row_year r, row_week r) = c) df)
      in if counts = [] then 0
         else of_int (sum_list counts) / of_int (int (length counts)))"

definition pivot_table :: "row list \<Rightarrow> int frame" where
  "pivot_table df =
     (let idx = sort (remdups (map row_weekday df));
          cols = sort (remdups (map (\<lambda>r. (row_year r, row_week r)) df))
      in \<lparr>index = idx, columns = cols,
          cells = map (\<lambda>w. map (pivot_cell df w) cols) idx\<rparr>)"

text \<open>Lines 212 to 230: the grid as it stands before the row labels are assigned.\<close>

definition heatmap_data :: "json list \<Rightarrow> int frame result" where
  "heatmap_data dates =
     andthen (pd_to_datetime dates) (\<lambda>ts.
       Inr (pivot_table
              (filter (\<lambda>r. row_weekday r < 5) (map add_columns (groupby_date_sum ts)))))"

text \<open>
  \<^verbatim>\<open>heatmap_data.index = [...]\<close> (line 232). On a frame that has columns pandas refuses
  labels whose number is not the number of rows (\<^verbatim>\<open>ValueError: Length mismatch\<close>). On a
  frame without columns it makes no such check: the labels become the index whatever
  their number, and the frame has one empty row for each of them.
\<close>

definition set_index :: "'i frame \<Rightarrow> 'j list \<Rightarrow> 'j frame result" where
  "set_index f labels =
     (if columns f = []
      then Inr \<lparr>index = labels, columns = [], cells = map (\<lambda>l. []) labels\<rparr>
      else if length labels = length (index f)
      then Inr \<lparr>index = labels, columns = columns f, cells = cells f\<rparr>
      else Inl ValueError)"

text \<open>Line 250, \<^verbatim>\<open>lambda x: min(x, 10)\<close>.\<close>

definition cap :: "rat \<Rightarrow> rat" where
  "cap x = min x 10"

text \<open>
  \<^verbatim>\<open>generate_plotly_heatmap\<close> (lines 212 to 250). The result is the labelled, capped grid
  that is handed to the plotting library; drawing it and writing the output file are
  not modelled.
\<close>

definition generate_plotly_heatmap :: "json list \<Rightarrow> string \<Rightarrow> string frame result" where
  "generate_plotly_heatmap dates output_file =
     andthen (heatmap_data dates) (\<lambda>grid.
     andthen (set_index grid [''Monday'', ''Tuesday'', ''Wednesday'', ''Thursday'', ''Friday''])
       (\<lambda>labelled.
     Inr \<lparr>index = index labelled, columns = columns labelled,
          cells = map (map cap) (cells labelled)\<rparr>))"

section \<open>Describing responses\<close>

text \<open>
  The vocabulary in which the properties below speak of a response: \<open>obj_get\<close> is the
  value of a key of a JSON object (\<open>None\<close> for a missing key and for a value that is not
  an object), \<open>obj_path\<close> follows a chain of keys.
\<close>

fun obj_get :: "json \<Rightarrow> string \<Rightarrow> json option" where
  "obj_get (JObj kvs) k = map_of kvs k"
| "obj_get _ k = None"

fun obj_path :: "json \<Rightarrow> string list \<Rightarrow> json option" where
  "obj_path j [] = Some j"
| "obj_path j (k # ks) = (case obj_get j k of None \<Rightarrow> None | Some v \<Rightarrow> obj_path v ks)"

text \<open>
  The \<^verbatim>\<open>hasNextPage\<close> and \<^verbatim>\<open>endCursor\<close> of the first element of the collection's
  \<^verbatim>\<open>commitContributionsByRepository\<close> list.
\<close>

definition commit_page_info :: "json \<Rightarrow> (json \<times> json) option" where
  "commit_page_info cd =
     (case obj_get cd ''commitContributionsByRepository'' of
        Some (JList (repo # others)) \<Rightarrow>
          (case obj_path repo [''contributions'', ''pageInfo''] of
             Some pinfo \<Rightarrow>
               (case obj_get pinfo ''hasNextPage'' of
                  Some h \<Rightarrow>
                    (case obj_get pinfo ''endCursor'' of Some c \<Rightarrow> Some (h, c) | None \<Rightarrow> None)
                | None \<Rightarrow> None)
           | None \<Rightarrow> None)
      | _ \<Rightarrow> None)"

text \<open>
  A response body that carries no \<^verbatim>\<open>errors\<close> key and a contributions collection from
  which the events \<open>new\<close> are extracted and whose commit page info is \<open>(h, c)\<close>.
\<close>

definition is_page :: "json \<Rightarrow> json list \<Rightarrow> json \<Rightarrow> json \<Rightarrow> bool" where
  "is_page data new h c =
     (obj_get data ''errors'' = None \<and>
      (case obj_path data [''data'', ''user'', ''contributionsCollection''] of
         None \<Rightarrow> False
       | Some cd \<Rightarrow> extract_contributions cd = Inr new \<and> commit_page_info cd = Some (h, c)))"

text \<open>
  Fixtures: an event node, a connection (\<^verbatim>\<open>nodes\<close> and \<^verbatim>\<open>pageInfo\<close>), a repository entry
  of the commit collection, and a whole response body in the shape the query asks for.
\<close>

definition event :: "string \<Rightarrow> json" where
  "event t = JObj [(''occurredAt'', JStr t)]"

definition connection :: "json list \<Rightarrow> bool \<Rightarrow> json \<Rightarrow> json" where
  "connection nodes has_next end_cursor =
     JObj [(''nodes'', JList nodes),
           (''pageInfo'', JObj [(''hasNextPage'', JBool has_next), (''endCursor'', end_cursor)])]"

definition repo_entry :: "json \<Rightarrow> json" where
  "repo_entry conn = JObj [(''contributions'', conn)]"

definition collection_fields ::
  "json list \<Rightarrow> json \<Rightarrow> json \<Rightarrow> json \<Rightarrow> json \<Rightarrow> json \<Rightarrow> json \<Rightarrow> (string \<times> json) list" where
  "collection_fields repos issues prs reviews creations restricted calendar =
     [(''commitContributionsByRepository'', JList repos),
      (''issueContributions'', issues),
      (''pullRequestContributions'', prs),
      (''pullRequestReviewContributions'', reviews),
      (''repositoryContributions'', creations),
      (''restrictedContributionsCount'', restricted),
      (''contributionCalendar'', calendar)]"

definition collection ::
  "json list \<Rightarrow> json \<Rightarrow> json \<Rightarrow> json \<Rightarrow> json \<Rightarrow> json \<Rightarrow> json \<Rightarrow> json" where
  "collection repos issues prs reviews creations restricted calendar =
     JObj (collection_fields repos issues prs reviews creations restricted calendar)"

definition response_body :: "json \<Rightarrow> json" where
  "response_body cd = JObj [(''data'', JObj [(''user'', JObj [(''contributionsCollection'', cd)])])]"

definition errors_body :: json where
  "errors_body = JObj [(''errors'', JList [JObj [(''message'', JStr ''Bad credentials'')]])]"

definition world0 :: "json list \<Rightarrow> world" where
  "world0 rs = \<lparr>responses = rs, sent = [], console = [], calls = []\<rparr>"

definition calendar0 :: json where
  "calendar0 = JObj [(''totalContributions'', JNum 0), (''weeks'', JList [])]"

text \<open>
  Two pages of one year window. On the second the commit collection reports no next
  page while the issue collection reports one.
\<close>

definition collection1 :: json where
  "collection1 = collection
     [repo_entry (connection [event ''2023-01-02T10:00:00Z'', event ''2023-01-02T11:00:00Z'']
                    True (JStr ''CUR1''))]
     (connection [event ''2023-01-03T09:00:00Z''] False JNull)
     (connection [] False JNull)
     (connection [event ''2023-01-04T09:00:00Z''] False JNull)
     (connection [] False JNull)
     (JNum 0) calendar0"

definition page1 :: json where
  "page1 = response_body collection1"

definition page2 :: json where
  "page2 = response_body (collection
     [repo_entry (connection [event ''2023-01-05T10:00:00Z''] False (JStr ''CUR2''))]
     (connection [] True (JStr ''MORE''))
     (connection [event ''2023-01-06T12:00:00Z''] False JNull)
     (connection [] False JNull)
     (connection [] False JNull)
     (JNum 0) calendar0)"

definition events1 :: "json list" where
  "events1 = [event ''2023-01-02T10:00:00Z'', event ''2023-01-02T11:00:00Z'',
              event ''2023-01-03T09:00:00Z'']"

definition events2 :: "json list" where
  "events2 = [event ''2023-01-05T10:00:00Z'', event ''2023-01-06T12:00:00Z'']"

text \<open>
  The first collection again, with other reviews, repository creations, restricted
  count and calendar.
\<close>

definition collection1_other :: json where
  "collection1_other = collection
     [repo_entry (connection [event ''2023-01-02T10:00:00Z'', event ''2023-01-02T11:00:00Z'']
                    True (JStr ''CUR1''))]
     (connection [event ''2023-01-03T09:00:00Z''] False JNull)
     (connection [] False JNull)
     (connection [event ''2023-02-01T08:00:00Z'', event ''2023-02-02T08:00:00Z''] True (JStr ''R'') )
     (connection [event ''2023-03-01T08:00:00Z''] False JNull)
     (JNum 7)
     (JObj [(''totalContributions'', JNum 12), (''weeks'', JList [JObj [(''contributionDays'', JList [])]])])"




text \<open>Start and end dates of runs.\<close>

definition leap_start :: datetime where
  "leap_start = \<lparr>year = 2020, month = 2, day = 29\<rparr>"

definition end_2022 :: datetime where
  "end_2022 = \<lparr>year = 2022, month = 6, day = 1\<rparr>"

definition start_2021 :: datetime where
  "start_2021 = \<lparr>year = 2021, month = 9, day = 15\<rparr>"

definition end_2023 :: datetime where
  "end_2023 = \<lparr>year = 2023, month = 3, day = 1\<rparr>"

definition end_2021 :: datetime where
  "end_2021 = \<lparr>year = 2021, month = 12, day = 31\<rparr>"

text \<open>
  Timestamps: the three of the example (two on Monday 2 January 2023, one on the
  Saturday after it), a list that covers Monday to Friday of that week, a week in
  which one instant of the Monday occurs twelve times, and a weekend.
\<close>

definition monday_saturday_dates :: "json list" where
  "monday_saturday_dates =
     [JStr ''2023-01-02T10:00:00Z'', JStr ''2023-01-02T11:00:00Z'', JStr ''2023-01-07T09:00:00Z'']"

definition full_week_dates :: "json list" where
  "full_week_dates =
     [JStr ''2023-01-02T10:00:00Z'', JStr ''2023-01-02T10:00:00Z'', JStr ''2023-01-03T10:00:00Z'',
      JStr ''2023-01-04T10:00:00Z'', JStr ''2023-01-05T10:00:00Z'', JStr ''2023-01-06T10:00:00Z'',
      JStr ''2023-01-13T10:00:00Z'']"

definition busy_week_dates :: "json list" where
  "busy_week_dates =
     replicate 12 (JStr ''2023-01-02T10:00:00Z'') @
     [JStr ''2023-01-03T10:00:00Z'', JStr ''2023-01-04T10:00:00Z'',
      JStr ''2023-01-05T10:00:00Z'', JStr ''2023-01-06T10:00:00Z'']"

definition weekend_dates :: "json list" where
  "weekend_dates = [JStr ''2023-01-07T09:00:00Z'', JStr ''2023-01-08T09:00:00Z'']"

definition weekday_labels :: "string list" where
  "weekday_labels = [''Monday'', ''Tuesday'', ''Wednesday'', ''Thursday'', ''Friday'']"

definition at_hour :: "int \<Rightarrow> int \<Rightarrow> int \<Rightarrow> int \<Rightarrow> timestamp" where
  "at_hour y m d h = \<lparr>t_year = y, t_month = m, t_day = d, t_hour = h, t_minute = 0, t_second = 0\<rparr>"

text \<open>
  The layout of the query text as the properties below read it: an opening that names
  the user and the start of the window, the five collections, each with its argument
  list \<open>args\<close> and its selection of \<^verbatim>\<open>nodes\<close> and \<^verbatim>\<open>pageInfo\<close>, and a closing with the
  restricted count and the calendar.
\<close>

definition query_opening :: "string \<Rightarrow> string \<Rightarrow> string" where
  \<open>query_opening username from_date = concat [
     ''\<newline>'',
     ''    {\<newline>'',
     ''      user(login: "'', username, ''") {\<newline>'',
     ''        contributionsCollection(from: "'', from_date, ''T00:00:00Z") {\<newline>'',
     ''          commitContributionsByRepository(maxRepositories: 100) {\<newline>'',
     ''            '']\<close>

definition selection :: "string \<Rightarrow> string" where
  \<open>selection indent = concat [
     '' {\<newline>'',
     indent, ''  nodes {\<newline>'',
     indent, ''    occurredAt\<newline>'',
     indent, ''  }\<newline>'',
     indent, ''  pageInfo {\<newline>'',
     indent, ''    hasNextPage\<newline>'',
     indent, ''    endCursor\<newline>'',
     indent, ''  }\<newline>'',
     indent, ''}\<newline>'']\<close>

definition query_closing :: string where
  \<open>query_closing = concat [
     ''          restrictedContributionsCount  # Includes restricted contributions (e.g., private contributions)\<newline>'',
     ''          contributionCalendar {\<newline>'',
     ''            totalContributions\<newline>'',
     ''            weeks {\<newline>'',
     ''              contributionDays {\<newline>'',
     ''                contributionCount\<newline>'',
     ''                date\<newline>'',
     ''              }\<newline>'',
     ''            }\<newline>'',
     ''          }\<newline>'',
     ''        }\<newline>'',
     ''      }\<newline>'',
     ''    }\<newline>'',
     ''    '']\<close>

definition query_layout :: "string \<Rightarrow> string \<Rightarrow> string \<Rightarrow> string" where
  \<open>query_layout username from_date args = concat [
     query_opening username from_date,
     ''contributions'', args, selection ''            '',
     ''          }\<newline>'',
     ''          issueContributions'', args, selection ''          '',
     ''          pullRequestContributions'', args, selection ''          '',
     ''          pullRequestReviewContributions'', args, selection ''          '',
     ''          repositoryContributions'', args, selection ''          '',
     query_closing]\<close>

section \<open>Auxiliary facts\<close>

lemma andthen_simps [simp]:
  "andthen (Inl e) f = Inl e"
  "andthen (Inr x) f = f x"
  by (simp_all add: andthen_def)

lemma getitem_str_obj_get: "obj_get j k = Some v \<Longrightarrow> getitem_str j k = Inr v"
  by (cases j) simp_all

lemma contains_str_obj_get:
  "obj_get j k = Some v \<Longrightarrow> contains_str k j = Inr True"
  by (cases j) (auto simp: map_of_eq_Some_iff dest: map_of_SomeD intro: rev_image_eqI)

lemma contains_str_absent:
  "obj_get j k = None \<Longrightarrow> obj_get j k' = Some v \<Longrightarrow> contains_str k j = Inr False"
  by (cases j) (auto simp: map_of_eq_None_iff)

lemma fetch_loop_step:
  assumes "get_contributions_query username from_date cursor = Inr query"
    and "responses w = data # rest"
  shows "fetch_loop username header from_date contributions cursor w =
     (case loop_body contributions data of
        Inl e \<Rightarrow> (Inl e, w\<lparr>responses := rest, sent := sent w @ [query]\<rparr>)
      | Inr (ErrorsBreak errs) \<Rightarrow>
          (Inr contributions,
           w\<lparr>responses := rest, sent := sent w @ [query], console := console w @ [errs]\<rparr>)
      | Inr (LastPage cs) \<Rightarrow> (Inr cs, w\<lparr>responses := rest, sent := sent w @ [query]\<rparr>)
      | Inr (NextPage cs c) \<Rightarrow>
          fetch_loop username header from_date cs c
            (w\<lparr>responses := rest, sent := sent w @ [query]\<rparr>))"
  by (subst fetch_loop.simps)
     (simp add: assms requests_post_def split: sum.splits outcome.splits)

lemma loop_body_errors:
  "obj_get data ''errors'' = Some errs \<Longrightarrow> loop_body contributions data = Inr (ErrorsBreak errs)"
  by (simp add: loop_body_def contains_str_obj_get getitem_str_obj_get)

lemma commit_page_info_SomeD:
  assumes "commit_page_info cd = Some (h, c)"
  obtains repo others contribs pinfo where
    "obj_get cd ''commitContributionsByRepository'' = Some (JList (repo # others))"
    "obj_get repo ''contributions'' = Some contribs"
    "obj_get contribs ''pageInfo'' = Some pinfo"
    "obj_get pinfo ''hasNextPage'' = Some h"
    "obj_get pinfo ''endCursor'' = Some c"
  using assms
  by (auto simp: commit_page_info_def split: option.splits json.splits list.splits)

lemma get_page_info_view:
  assumes "commit_page_info cd = Some (h, c)"
  shows "get_page_info cd = Inr (JObj [(''hasNextPage'', h), (''endCursor'', c)])"
proof -
  from assms obtain repo others contribs pinfo where
    "obj_get cd ''commitContributionsByRepository'' = Some (JList (repo # others))"
    "obj_get repo ''contributions'' = Some contribs"
    "obj_get contribs ''pageInfo'' = Some pinfo"
    "obj_get pinfo ''hasNextPage'' = Some h"
    "obj_get pinfo ''endCursor'' = Some c"
    by (rule commit_page_info_SomeD)
  then show ?thesis
    by (simp add: get_page_info_def getitem_str_obj_get py_index_def)
qed

lemma loop_body_page:
  assumes "obj_get data ''errors'' = None"
    and "obj_path data [''data'', ''user'', ''contributionsCollection''] = Some cd"
    and "extract_contributions cd = Inr new"
    and "commit_page_info cd = Some (h, c)"
  shows "loop_body contributions data =
     Inr (if py_truthy h then NextPage (contributions @ new) c
          else LastPage (contributions @ new))"
proof -
  from assms(2) obtain d u where
    d: "obj_get data ''data'' = Some d" and u: "obj_get d ''user'' = Some u"
    and c: "obj_get u ''contributionsCollection'' = Some cd"
    by (auto split: option.splits)
  have "contains_str ''errors'' data = Inr False"
    using assms(1) d by (rule contains_str_absent)
  then show ?thesis
    using d u c assms(3) get_page_info_view [OF assms(4)]
    by (simp add: loop_body_def getitem_str_obj_get)
qed

lemma extend_repos_view:
  assumes "list_all2 (\<lambda>r ns. obj_path r [''contributions'', ''nodes''] = Some (JList ns)) repos nss"
  shows "extend_repos acc repos = Inr (acc @ concat nss)"
  using assms
proof (induction repos nss arbitrary: acc rule: list_all2_induct)
  case Nil
  then show ?case by simp
next
  case (Cons r repos ns nss)
  from Cons.hyps(1) obtain c where
    "obj_get r ''contributions'' = Some c" "obj_get c ''nodes'' = Some (JList ns)"
    by (auto split: option.splits)
  then show ?case
    by (simp add: getitem_str_obj_get Cons.IH)
qed

lemma extract_contributions_view:
  assumes "obj_get cd ''commitContributionsByRepository'' = Some (JList repos)"
    and "list_all2 (\<lambda>r ns. obj_path r [''contributions'', ''nodes''] = Some (JList ns)) repos nss"
    and "obj_path cd [''issueContributions'', ''nodes''] = Some (JList issue_nodes)"
    and "obj_path cd [''pullRequestContributions'', ''nodes''] = Some (JList pr_nodes)"
  shows "extract_contributions cd = Inr (concat nss @ issue_nodes @ pr_nodes)"
proof -
  from assms(3) obtain i where
    "obj_get cd ''issueContributions'' = Some i" "obj_get i ''nodes'' = Some (JList issue_nodes)"
    by (auto split: option.splits)
  moreover from assms(4) obtain p where
    "obj_get cd ''pullRequestContributions'' = Some p" "obj_get p ''nodes'' = Some (JList pr_nodes)"
    by (auto split: option.splits)
  ultimately show ?thesis
    using assms(1) extend_repos_view [OF assms(2), of "[]"]
    by (simp add: extract_contributions_def getitem_str_obj_get)
qed

lemma extract_contributions_only_three:
  assumes "map_of kvs' ''commitContributionsByRepository'' = map_of kvs ''commitContributionsByRepository''"
    and "map_of kvs' ''issueContributions'' = map_of kvs ''issueContributions''"
    and "map_of kvs' ''pullRequestContributions'' = map_of kvs ''pullRequestContributions''"
  shows "extract_contributions (JObj kvs') = extract_contributions (JObj kvs)"
  using assms by (simp add: extract_contributions_def)

lemma is_pageD:
  assumes "is_page data new h c"
  obtains cd where "obj_get data ''errors'' = None"
    "obj_path data [''data'', ''user'', ''contributionsCollection''] = Some cd"
    "extract_contributions cd = Inr new" "commit_page_info cd = Some (h, c)"
  using assms unfolding is_page_def by (auto split: option.splits)

lemma fetch_loop_page:
  assumes "get_contributions_query username from_date cursor = Inr query"
    and "responses w = data # rest"
    and "is_page data new h c"
  shows "fetch_loop username header from_date contributions cursor w =
     (if py_truthy h
      then fetch_loop username header from_date (contributions @ new) c
             (w\<lparr>responses := rest, sent := sent w @ [query]\<rparr>)
      else (Inr (contributions @ new), w\<lparr>responses := rest, sent := sent w @ [query]\<rparr>))"
proof -
  from assms(3) obtain cd where "obj_get data ''errors'' = None"
    "obj_path data [''data'', ''user'', ''contributionsCollection''] = Some cd"
    "extract_contributions cd = Inr new" "commit_page_info cd = Some (h, c)"
    by (rule is_pageD)
  then have "loop_body contributions data =
     Inr (if py_truthy h then NextPage (contributions @ new) c
          else LastPage (contributions @ new))"
    by (rule loop_body_page)
  then show ?thesis
    by (simp add: fetch_loop_step [OF assms(1,2)])
qed

lemma get_contributions_query_JNull_projr:
  "get_contributions_query u d JNull = Inr (projr (get_contributions_query u d JNull))"
  by (simp add: get_contributions_query_def)

lemma get_contributions_query_JStr_projr:
  "get_contributions_query u d (JStr c) = Inr (projr (get_contributions_query u d (JStr c)))"
  by (simp add: get_contributions_query_def)

lemma is_page1: "is_page page1 events1 (JBool True) (JStr ''CUR1'')"
  by code_simp

lemma is_page2: "is_page page2 events2 (JBool False) (JStr ''CUR2'')"
  by code_simp

lemma fetch_loop_errors:
  assumes "get_contributions_query username from_date cursor = Inr query"
    and "responses w = data # rest"
    and "obj_get data ''errors'' = Some errs"
  shows "fetch_loop username header from_date contributions cursor w =
     (Inr contributions,
      w\<lparr>responses := rest, sent := sent w @ [query], console := console w @ [errs]\<rparr>)"
  by (simp add: fetch_loop_step [OF assms(1,2)] loop_body_errors [OF assms(3)])

lemma errors_body_errors:
  "obj_get errors_body ''errors'' = Some (JList [JObj [(''message'', JStr ''Bad credentials'')]])"
  by (simp add: errors_body_def)




lemma fetch_loop_calls:
  "calls (snd (fetch_loop username header from_date contributions cursor w)) = calls w"
proof (induction username header from_date contributions cursor w rule: fetch_loop.induct)
  case (1 username header from_date contributions cursor w)
  show ?case
    apply (subst fetch_loop.simps)
    apply (auto simp: requests_post_def split: sum.splits prod.splits list.splits outcome.splits)
    using 1 apply (fastforce simp: requests_post_def)
    done
qed

lemma fetch_contributions_calls:
  "calls (snd (fetch_contributions username header from_date w)) = calls w @ [from_date]"
  by (simp add: fetch_contributions_def fetch_loop_calls)

lemma replace_year_InrD: "replace_year d y = Inr d' \<Longrightarrow> d' = d\<lparr>year := y\<rparr>"
  by (auto simp: replace_year_def split: if_splits)

lemma fetch_years_calls:
  "fetch_years username header start_date contributions offsets w = (Inr evs, w') \<Longrightarrow>
   calls w' = calls w @ map (\<lambda>k. strftime_ymd (start_date\<lparr>year := year start_date + k\<rparr>)) offsets"
proof (induction offsets arbitrary: contributions w)
  case Nil
  then show ?case by simp
next
  case (Cons k offsets)
  from Cons.prems obtain cs new w1 where
    r: "replace_year start_date (year start_date + k) = Inr cs"
    and f: "fetch_contributions username header (strftime_ymd cs) w = (Inr new, w1)"
    and rest: "fetch_years username header start_date (contributions @ new) offsets w1 = (Inr evs, w')"
    by (auto split: sum.splits prod.splits)
  have "calls w1 = calls w @ [strftime_ymd cs]"
    using fetch_contributions_calls [of username header "strftime_ymd cs" w] f by simp
  moreover have "cs = start_date\<lparr>year := year start_date + k\<rparr>"
    using r by (rule replace_year_InrD)
  ultimately show ?case
    using Cons.IH [OF rest] by simp
qed

lemma two_windows_run:
  "fetch_all_contributions ''octocat'' [] start_2021 end_2023 (world0 [page2, errors_body, page1]) =
     (Inr events2,
      \<lparr>responses = [page1],
       sent = [projr (get_contributions_query ''octocat'' ''2021-09-15'' JNull),
               projr (get_contributions_query ''octocat'' ''2022-09-15'' JNull)],
       console = [JList [JObj [(''message'', JStr ''Bad credentials'')]]],
       calls = [''2021-09-15'', ''2022-09-15'']\<rparr>)"
  by code_simp

lemma two_windows_dates:
  "map (\<lambda>k. strftime_ymd (start_2021\<lparr>year := year start_2021 + int k\<rparr>))
       [0..<nat (year end_2023 - year start_2021)] = [''2021-09-15'', ''2022-09-15'']"
  by code_simp

lemma set_groupby_date_sum: "fst ` set (groupby_date_sum ts) = set ts"
  by (simp add: groupby_date_sum_def image_image)

lemma weekdays_of_rows_list:
  "map row_weekday (filter (\<lambda>r. row_weekday r < 5) (map add_columns g)) =
   filter (\<lambda>d. d < 5) (map weekday (map fst g))"
  by (induction g) (simp_all add: add_columns_def)

lemma weekdays_of_rows:
  "set (map row_weekday (filter (\<lambda>r. row_weekday r < 5) (map add_columns (groupby_date_sum ts)))) =
   set (filter (\<lambda>d. d < 5) (map weekday ts))"
proof -
  have "set (filter (\<lambda>d. d < 5) (map weekday (map fst (groupby_date_sum ts)))) =
      {d \<in> weekday ` (fst ` set (groupby_date_sum ts)). d < 5}"
    by (simp add: image_image)
  also have "\<dots> = set (filter (\<lambda>d. d < 5) (map weekday ts))"
    unfolding set_groupby_date_sum by simp
  finally show ?thesis
    unfolding weekdays_of_rows_list .
qed

lemma length_index_pivot_table:
  "length (index (pivot_table df)) = card (set (map row_weekday df))"
  by (simp add: pivot_table_def Let_def length_remdups_card_conv del: set_map)

lemma weekdays_at_most_five: "card (set (filter (\<lambda>d. d < 5) (map weekday ts))) \<le> 5"
proof -
  have "set (filter (\<lambda>d. d < 5) (map weekday ts)) \<subseteq> {0..4}"
    by (auto simp: weekday_def)
  then have "card (set (filter (\<lambda>d. d < 5) (map weekday ts))) \<le> card {0..4::int}"
    by (intro card_mono) simp_all
  then show ?thesis by simp
qed

lemma columns_pivot_table_Nil: "columns (pivot_table df) = [] \<longleftrightarrow> df = []"
proof -
  have "set (columns (pivot_table df)) = (\<lambda>r. (row_year r, row_week r)) ` set df"
    by (simp add: pivot_table_def Let_def)
  then show ?thesis
    by (metis empty_set image_is_empty set_empty)
qed

lemma filtered_rows_Nil:
  "filter (\<lambda>r. row_weekday r < 5) (map add_columns (groupby_date_sum ts)) = [] \<longleftrightarrow>
   card (set (filter (\<lambda>d. d < 5) (map weekday ts))) = 0"
proof -
  let ?df = "filter (\<lambda>r. row_weekday r < 5) (map add_columns (groupby_date_sum ts))"
  have "?df = [] \<longleftrightarrow> set (map row_weekday ?df) = {}"
    by (simp del: set_map set_filter)
  also have "\<dots> \<longleftrightarrow> set (filter (\<lambda>d. d < 5) (map weekday ts)) = {}"
    unfolding weekdays_of_rows ..
  also have "\<dots> \<longleftrightarrow> card (set (filter (\<lambda>d. d < 5) (map weekday ts))) = 0"
    by (simp del: set_map set_filter)
  finally show ?thesis .
qed

lemma generate_plotly_heatmap_fails_iff:
  assumes "pd_to_datetime dates = Inr ts"
  shows "generate_plotly_heatmap dates output_file = Inl ValueError \<longleftrightarrow>
     0 < card (set (filter (\<lambda>d. d < 5) (map weekday ts))) \<and>
     card (set (filter (\<lambda>d. d < 5) (map weekday ts))) < 5"
proof -
  let ?df = "filter (\<lambda>r. row_weekday r < 5) (map add_columns (groupby_date_sum ts))"
  let ?n = "card (set (filter (\<lambda>d. d < 5) (map weekday ts)))"
  have len: "length (index (pivot_table ?df)) = ?n"
    unfolding length_index_pivot_table weekdays_of_rows ..
  have cols: "columns (pivot_table ?df) = [] \<longleftrightarrow> ?n = 0"
    unfolding columns_pivot_table_Nil filtered_rows_Nil ..
  have "generate_plotly_heatmap dates output_file = Inl ValueError \<longleftrightarrow>
      columns (pivot_table ?df) \<noteq> [] \<and> length (index (pivot_table ?df)) \<noteq> 5"
    using assms by (simp add: generate_plotly_heatmap_def heatmap_data_def set_index_def)
  also have "\<dots> \<longleftrightarrow> 0 < ?n \<and> ?n < 5"
    using weekdays_at_most_five [of ts] unfolding len cols by linarith
  finally show ?thesis .
qed

lemma generate_plotly_heatmap_no_rows:
  assumes "pd_to_datetime dates = Inr ts"
    and "card (set (filter (\<lambda>d. d < 5) (map weekday ts))) = 0"
  shows "generate_plotly_heatmap dates output_file =
     Inr \<lparr>index = weekday_labels, columns = [], cells = [[], [], [], [], []]\<rparr>"
proof -
  let ?df = "filter (\<lambda>r. row_weekday r < 5) (map add_columns (groupby_date_sum ts))"
  have "?df = []"
    using assms(2) by (simp only: filtered_rows_Nil)
  then show ?thesis
    using assms(1)
    by (simp add: generate_plotly_heatmap_def heatmap_data_def set_index_def pivot_table_def
        weekday_labels_def)
qed

lemma generate_plotly_heatmap_empty:
  "generate_plotly_heatmap [] output_file =
     Inr \<lparr>index = weekday_labels, columns = [], cells = [[], [], [], [], []]\<rparr>"
  by (rule generate_plotly_heatmap_no_rows [of "[]" "[]"]) simp_all

lemma generate_plotly_heatmap_cells:
  assumes "heatmap_data dates = Inr grid" and "set_index grid weekday_labels = Inr labelled"
  shows "generate_plotly_heatmap dates output_file =
     Inr \<lparr>index = index labelled, columns = columns labelled,
          cells = map (map cap) (cells labelled)\<rparr>"
  using assms by (simp add: generate_plotly_heatmap_def weekday_labels_def)

lemma generate_plotly_heatmap_capped:
  assumes "generate_plotly_heatmap dates output_file = Inr f"
  shows "\<forall>r \<in> set (cells f). \<forall>x \<in> set r. x \<le> 10"
  using assms
  by (auto simp: generate_plotly_heatmap_def andthen_def cap_def split: sum.splits)

lemma monday_saturday_parsed:
  "pd_to_datetime monday_saturday_dates = Inr [at_hour 2023 1 2 10, at_hour 2023 1 2 11, at_hour 2023 1 7 9]"
  by code_simp

lemma full_week_parsed:
  "pd_to_datetime full_week_dates =
     Inr [at_hour 2023 1 2 10, at_hour 2023 1 2 10, at_hour 2023 1 3 10, at_hour 2023 1 4 10, at_hour 2023 1 5 10,
          at_hour 2023 1 6 10, at_hour 2023 1 13 10]"
  by code_simp

lemma monday_saturday_weekdays:
  "card (set (filter (\<lambda>d. d < 5) (map weekday [at_hour 2023 1 2 10, at_hour 2023 1 2 11, at_hour 2023 1 7 9]))) = 1"
  by code_simp

lemma full_week_weekdays:
  "card (set (filter (\<lambda>d. d < 5) (map weekday
     [at_hour 2023 1 2 10, at_hour 2023 1 2 10, at_hour 2023 1 3 10, at_hour 2023 1 4 10, at_hour 2023 1 5 10,
      at_hour 2023 1 6 10, at_hour 2023 1 13 10]))) = 5"
  by code_simp

lemma weekend_parsed:
  "pd_to_datetime weekend_dates = Inr [at_hour 2023 1 7 9, at_hour 2023 1 8 9]"
  by code_simp

lemma weekend_weekdays:
  "card (set (filter (\<lambda>d. d < 5) (map weekday [at_hour 2023 1 7 9, at_hour 2023 1 8 9]))) = 0"
  by code_simp

lemma full_week_grid:
  "generate_plotly_heatmap full_week_dates ''out.html'' =
  Inr \<lparr>index = [''Monday'', ''Tuesday'', ''Wednesday'', ''Thursday'', ''Friday''],
       columns = [(2023, 1), (2023, 2)], cells = [[2, 0], [1, 0], [1, 0], [1, 0], [1, 1]]\<rparr>"
  by code_simp

lemma query_with_cursor:
  \<open>c \<noteq> [] \<Longrightarrow> get_contributions_query u d (JStr c) =
     Inr (query_layout u d (''(first: 100, after: "'' @ c @ ''")''))\<close>
  by (simp add: get_contributions_query_def query_layout_def query_opening_def selection_def
      query_closing_def)

lemma query_without_cursor:
  \<open>get_contributions_query u d JNull = Inr (query_layout u d ''(first: 100)'')\<close>
  \<open>get_contributions_query u d (JStr []) = Inr (query_layout u d ''(first: 100)'')\<close>
  by (simp_all add: get_contributions_query_def query_layout_def query_opening_def selection_def
      query_closing_def)

lemma layout_has_no_after: "\<not> sublist ''after'' (query_layout [] [] [])"
  by code_simp

section \<open>Pagination\<close>

text \<open>
  C1. In \<^verbatim>\<open>fetch_contributions\<close> the decision taken after a page rests on the page info
  of the commit-by-repository collection alone. For a page without an \<^verbatim>\<open>errors\<close> key whose
  events are \<open>new\<close> and whose commit page info is \<open>(h, c)\<close>, one request is sent and the
  loop goes on, with \<open>c\<close> as the cursor of the next request, exactly when \<open>h\<close> is true;
  otherwise it returns. When the commit collection reports a next page on the first
  response and none on the second, exactly two requests are sent (the second with the
  first page's cursor) and the events of the two pages are returned in order, whatever
  the page info of the other collections says: \<^verbatim>\<open>get_page_info\<close> gives the same answer
  on two collections that agree under the key of the commit collection.
\<close>

theorem fetch_loop_pagination:
  "(get_contributions_query username from_date cursor = Inr query \<and>
    responses w = data # rest \<and> is_page data new h c \<longrightarrow>
    fetch_loop username header from_date contributions cursor w =
      (if py_truthy h
       then fetch_loop username header from_date (contributions @ new) c
              (w\<lparr>responses := rest, sent := sent w @ [query]\<rparr>)
       else (Inr (contributions @ new), w\<lparr>responses := rest, sent := sent w @ [query]\<rparr>)))
   \<and>
   (get_contributions_query username from_date JNull = Inr q1 \<and>
    get_contributions_query username from_date c1 = Inr q2 \<and>
    responses w = data1 # data2 # rest \<and>
    is_page data1 new1 h1 c1 \<and> py_truthy h1 \<and>
    is_page data2 new2 h2 c2 \<and> \<not> py_truthy h2 \<longrightarrow>
    fetch_contributions username header from_date w =
      (Inr (new1 @ new2),
       w\<lparr>responses := rest, sent := sent w @ [q1, q2], calls := calls w @ [from_date]\<rparr>))
   \<and>
   (map_of kvs' ''commitContributionsByRepository'' = map_of kvs ''commitContributionsByRepository'' \<longrightarrow>
    get_page_info (JObj kvs') = get_page_info (JObj kvs))"
proof (intro conjI impI)
  assume "map_of kvs' ''commitContributionsByRepository'' = map_of kvs ''commitContributionsByRepository''"
  then show "get_page_info (JObj kvs') = get_page_info (JObj kvs)"
    by (simp add: get_page_info_def)
next
  assume "get_contributions_query username from_date cursor = Inr query \<and>
    responses w = data # rest \<and> is_page data new h c"
  then show "fetch_loop username header from_date contributions cursor w =
      (if py_truthy h
       then fetch_loop username header from_date (contributions @ new) c
              (w\<lparr>responses := rest, sent := sent w @ [query]\<rparr>)
       else (Inr (contributions @ new), w\<lparr>responses := rest, sent := sent w @ [query]\<rparr>))"
    by (simp add: fetch_loop_page)
next
  assume a: "get_contributions_query username from_date JNull = Inr q1 \<and>
    get_contributions_query username from_date c1 = Inr q2 \<and>
    responses w = data1 # data2 # rest \<and>
    is_page data1 new1 h1 c1 \<and> py_truthy h1 \<and>
    is_page data2 new2 h2 c2 \<and> \<not> py_truthy h2"
  let ?w0 = "w\<lparr>calls := calls w @ [from_date]\<rparr>"
  let ?w1 = "?w0\<lparr>responses := data2 # rest, sent := sent ?w0 @ [q1]\<rparr>"
  have first: "fetch_loop username header from_date [] JNull ?w0 =
      fetch_loop username header from_date ([] @ new1) c1 ?w1"
    using a fetch_loop_page [of username from_date JNull q1 ?w0 data1 "data2 # rest" new1 h1 c1 header "[]"]
    by simp
  have second: "fetch_loop username header from_date ([] @ new1) c1 ?w1 =
      (Inr (([] @ new1) @ new2), ?w1\<lparr>responses := rest, sent := sent ?w1 @ [q2]\<rparr>)"
    using a fetch_loop_page [of username from_date c1 q2 ?w1 data2 rest new2 h2 c2 header "[] @ new1"]
    by simp
  show "fetch_contributions username header from_date w =
      (Inr (new1 @ new2),
       w\<lparr>responses := rest, sent := sent w @ [q1, q2], calls := calls w @ [from_date]\<rparr>)"
    unfolding fetch_contributions_def first second by simp
qed

theorem fetch_loop_pagination_witness:
  "is_page page1 events1 (JBool True) (JStr ''CUR1'') \<and>
   is_page page2 events2 (JBool False) (JStr ''CUR2'') \<and>
   fetch_loop ''octocat'' [] ''2023-01-01'' events1 (JStr ''CUR1'') (world0 [page2, page1]) =
     (Inr (events1 @ events2),
      \<lparr>responses = [page1],
       sent = [projr (get_contributions_query ''octocat'' ''2023-01-01'' (JStr ''CUR1''))],
       console = [], calls = []\<rparr>) \<and>
   fetch_contributions ''octocat'' [] ''2023-01-01'' (world0 [page1, page2, page1]) =
     (Inr (events1 @ events2),
      \<lparr>responses = [page1],
       sent = [projr (get_contributions_query ''octocat'' ''2023-01-01'' JNull),
               projr (get_contributions_query ''octocat'' ''2023-01-01'' (JStr ''CUR1''))],
       console = [], calls = [''2023-01-01'']\<rparr>) \<and>
   get_page_info collection1_other = get_page_info collection1"
proof -
  have other: "get_page_info collection1_other = get_page_info collection1"
    unfolding collection1_other_def collection1_def collection_def
    by (rule fetch_loop_pagination [THEN conjunct2, THEN conjunct2, rule_format])
       (simp add: collection_fields_def)
  show ?thesis
  using other is_page1 is_page2
    fetch_loop_pagination [where username = "''octocat''" and from_date = "''2023-01-01''"
      and header = "[]" and cursor = "JStr ''CUR1''" and contributions = events1
      and query = "projr (get_contributions_query ''octocat'' ''2023-01-01'' (JStr ''CUR1''))"
      and w = "world0 [page2, page1]" and data = page2 and rest = "[page1]"
      and new = events2 and h = "JBool False" and c = "JStr ''CUR2''",
      THEN conjunct1]
    fetch_loop_pagination [where username = "''octocat''" and from_date = "''2023-01-01''"
      and header = "[]"
      and ?q1.0 = "projr (get_contributions_query ''octocat'' ''2023-01-01'' JNull)"
      and ?q2.0 = "projr (get_contributions_query ''octocat'' ''2023-01-01'' (JStr ''CUR1''))"
      and ?c1.0 = "JStr ''CUR1''" and w = "world0 [page1, page2, page1]"
      and ?data1.0 = page1 and ?data2.0 = page2 and rest = "[page1]"
      and ?new1.0 = events1 and ?new2.0 = events2 and ?h1.0 = "JBool True"
      and ?h2.0 = "JBool False" and ?c2.0 = "JStr ''CUR2''",
      THEN conjunct2, THEN conjunct1]
    get_contributions_query_JNull_projr [of "''octocat''" "''2023-01-01''"]
    get_contributions_query_JStr_projr [of "''octocat''" "''2023-01-01''" "''CUR1''"]
  by (simp add: world0_def)
qed

section \<open>The cells of the grid\<close>

text \<open>
  C2. The claim is that the grid groups the timestamps by calendar date, drops
  Saturdays and Sundays and regroups by weekday, year and ISO week, so that the three
  timestamps of the example give the count 2 for Monday of the week of 2 January 2023
  and nothing for the Saturday. The code groups by the full timestamp and takes the
  mean of each cell: on the example the grid has the one row of Monday and the one
  column of week 1 of 2023, nothing comes from the Saturday, and the cell holds 1; the
  assignment of the row labels then fails.
\<close>

theorem heatmap_data_monday_saturday:
  "heatmap_data monday_saturday_dates =
     Inr \<lparr>index = [0], columns = [(2023, 1)], cells = [[1]]\<rparr> \<and>
   generate_plotly_heatmap monday_saturday_dates ''out.html'' = Inl ValueError"
  by code_simp

section \<open>The year windows that are fetched\<close>

text \<open>
  C3. The claim that \<^verbatim>\<open>fetch_all_contributions\<close> invokes the per-year fetch exactly
  \<^verbatim>\<open>end_date.year - start_date.year\<close> times for every pair of dates does not hold: a start
  on 29 February has no counterpart in a common year, and the run stops there with a
  \<^verbatim>\<open>ValueError\<close>. What holds: whenever \<^verbatim>\<open>fetch_all_contributions\<close> returns, it has
  invoked the per-year fetch once for each of the offsets 0, 1, ... below the
  difference of the years (none when the difference is not positive), in ascending
  order, each time with the start date's month and day in the shifted year; and when
  the end year is not after the start year it invokes no fetch and returns the empty
  list.
\<close>

theorem fetch_all_contributions_windows:
  "(year end_date \<le> year start_date \<longrightarrow>
    fetch_all_contributions username header start_date end_date w = (Inr [], w))
   \<and>
   (fetch_all_contributions username header start_date end_date w = (Inr evs, w') \<longrightarrow>
    calls w' = calls w @
      map (\<lambda>k. strftime_ymd (start_date\<lparr>year := year start_date + int k\<rparr>))
          [0..<nat (year end_date - year start_date)] \<and>
    length (calls w') = length (calls w) + nat (year end_date - year start_date))"
proof (intro conjI impI)
  assume "year end_date \<le> year start_date"
  then show "fetch_all_contributions username header start_date end_date w = (Inr [], w)"
    by (simp add: fetch_all_contributions_def py_range_def)
next
  assume a: "fetch_all_contributions username header start_date end_date w = (Inr evs, w')"
  then show c: "calls w' = calls w @
      map (\<lambda>k. strftime_ymd (start_date\<lparr>year := year start_date + int k\<rparr>))
          [0..<nat (year end_date - year start_date)]"
    unfolding fetch_all_contributions_def py_range_def
    by (drule_tac fetch_years_calls) (simp add: comp_def)
  show "length (calls w') = length (calls w) + nat (year end_date - year start_date)"
    by (simp add: c)
qed

theorem fetch_all_contributions_windows_witness:
  "year end_2021 \<le> year start_2021 \<and>
   fetch_all_contributions ''octocat'' [] start_2021 end_2021 (world0 [page1]) =
     (Inr [], world0 [page1]) \<and>
   fst (fetch_all_contributions ''octocat'' [] start_2021 end_2023
          (world0 [page2, errors_body, page1])) = Inr events2 \<and>
   calls (snd (fetch_all_contributions ''octocat'' [] start_2021 end_2023
                 (world0 [page2, errors_body, page1]))) =
     calls (world0 [page2, errors_body, page1]) @ [''2021-09-15'', ''2022-09-15''] \<and>
   length (calls (snd (fetch_all_contributions ''octocat'' [] start_2021 end_2023
                         (world0 [page2, errors_body, page1])))) =
     length (calls (world0 [page2, errors_body, page1])) + 2"
proof -
  have y: "year end_2021 \<le> year start_2021"
    by (simp add: end_2021_def start_2021_def)
  have n: "nat (year end_2023 - year start_2021) = 2"
    by (simp add: end_2023_def start_2021_def)
  show ?thesis
    using y n two_windows_dates
      fetch_all_contributions_windows [where username = "''octocat''" and header = "[]"
        and start_date = start_2021 and end_date = end_2021 and w = "world0 [page1]",
        THEN conjunct1]
      fetch_all_contributions_windows [where username = "''octocat''" and header = "[]"
        and start_date = start_2021 and end_date = end_2023
        and w = "world0 [page2, errors_body, page1]" and evs = events2
        and w' = "snd (fetch_all_contributions ''octocat'' [] start_2021 end_2023
                        (world0 [page2, errors_body, page1]))",
        THEN conjunct2]
    by (simp add: two_windows_run)
qed

theorem fetch_all_contributions_windows_counterexample:
  "valid_date leap_start \<and> valid_date end_2022 \<and> year end_2022 - year leap_start = 2 \<and>
   fetch_all_contributions ''octocat'' [] leap_start end_2022 (world0 [page2, page2]) =
     (Inl ValueError,
      \<lparr>responses = [page2],
       sent = [projr (get_contributions_query ''octocat'' ''2020-02-29'' JNull)],
       console = [], calls = [''2020-02-29'']\<rparr>)"
  by code_simp

section \<open>Responses that carry errors\<close>

text \<open>
  C4. A response body with an \<^verbatim>\<open>errors\<close> key does not make \<^verbatim>\<open>fetch_contributions\<close> raise.
  The loop prints the payload and stops: no further request is sent for that year
  window, and the events gathered on the earlier pages are returned as they are. In
  \<^verbatim>\<open>fetch_all_contributions\<close> the events of the earlier year windows are kept, and the
  loop over the years goes on with the next window.
\<close>

theorem errors_stop_pagination:
  "(get_contributions_query username from_date cursor = Inr query \<and>
    responses w = data # rest \<and> obj_get data ''errors'' = Some errs \<longrightarrow>
    fetch_loop username header from_date contributions cursor w =
      (Inr contributions,
       w\<lparr>responses := rest, sent := sent w @ [query], console := console w @ [errs]\<rparr>))
   \<and>
   (replace_year start_date (year start_date + year_offset) = Inr current_start \<and>
    responses w = data # rest \<and> obj_get data ''errors'' = Some errs \<longrightarrow>
    fetch_years username header start_date contributions (year_offset # offsets) w =
      fetch_years username header start_date contributions offsets
        (w\<lparr>calls := calls w @ [strftime_ymd current_start],
           responses := rest,
           sent := sent w @
             [projr (get_contributions_query username (strftime_ymd current_start) JNull)],
           console := console w @ [errs]\<rparr>))"
proof (intro conjI impI)
  assume "get_contributions_query username from_date cursor = Inr query \<and>
    responses w = data # rest \<and> obj_get data ''errors'' = Some errs"
  then show "fetch_loop username header from_date contributions cursor w =
      (Inr contributions,
       w\<lparr>responses := rest, sent := sent w @ [query], console := console w @ [errs]\<rparr>)"
    by (simp add: fetch_loop_errors)
next
  assume a: "replace_year start_date (year start_date + year_offset) = Inr current_start \<and>
    responses w = data # rest \<and> obj_get data ''errors'' = Some errs"
  let ?d = "strftime_ymd current_start"
  let ?w0 = "w\<lparr>calls := calls w @ [?d]\<rparr>"
  have "fetch_contributions username header ?d w =
      (Inr [], ?w0\<lparr>responses := rest,
                   sent := sent ?w0 @ [projr (get_contributions_query username ?d JNull)],
                   console := console ?w0 @ [errs]\<rparr>)"
    unfolding fetch_contributions_def
    using a get_contributions_query_JNull_projr [of username ?d]
      fetch_loop_errors [where username = username and from_date = ?d and cursor = JNull
        and query = "projr (get_contributions_query username ?d JNull)"
        and w = ?w0 and data = data and rest = rest and errs = errs
        and header = header and contributions = "[]"]
    by simp
  with a show "fetch_years username header start_date contributions (year_offset # offsets) w =
      fetch_years username header start_date contributions offsets
        (w\<lparr>calls := calls w @ [strftime_ymd current_start],
           responses := rest,
           sent := sent w @
             [projr (get_contributions_query username (strftime_ymd current_start) JNull)],
           console := console w @ [errs]\<rparr>)"
    by simp
qed

theorem errors_stop_pagination_witness:
  "obj_get errors_body ''errors'' = Some (JList [JObj [(''message'', JStr ''Bad credentials'')]]) \<and>
   fetch_loop ''octocat'' [] ''2023-01-01'' events1 (JStr ''CUR1'') (world0 [errors_body, page2]) =
     (Inr events1,
      \<lparr>responses = [page2],
       sent = [projr (get_contributions_query ''octocat'' ''2023-01-01'' (JStr ''CUR1''))],
       console = [JList [JObj [(''message'', JStr ''Bad credentials'')]]], calls = []\<rparr>) \<and>
   replace_year \<lparr>year = 2022, month = 1, day = 1\<rparr> (2022 + 1) =
     Inr \<lparr>year = 2023, month = 1, day = 1\<rparr> \<and>
   fetch_years ''octocat'' [] \<lparr>year = 2022, month = 1, day = 1\<rparr> events1 [1]
       (world0 [errors_body, page2]) =
     (Inr events1,
      \<lparr>responses = [page2],
       sent = [projr (get_contributions_query ''octocat'' ''2023-01-01'' JNull)],
       console = [JList [JObj [(''message'', JStr ''Bad credentials'')]]],
       calls = [''2023-01-01'']\<rparr>)"
proof -
  have r: "replace_year \<lparr>year = 2022, month = 1, day = 1\<rparr> (2022 + 1) =
     Inr \<lparr>year = 2023, month = 1, day = 1\<rparr>"
    by (simp add: replace_year_def valid_date_def days_in_month_def)
  have s: "strftime_ymd \<lparr>year = 2023, month = 1, day = 1\<rparr> = ''2023-01-01''"
    by code_simp
  show ?thesis
    using errors_body_errors r s
      errors_stop_pagination [where username = "''octocat''" and from_date = "''2023-01-01''"
        and header = "[]" and cursor = "JStr ''CUR1''" and contributions = events1
        and query = "projr (get_contributions_query ''octocat'' ''2023-01-01'' (JStr ''CUR1''))"
        and w = "world0 [errors_body, page2]" and data = errors_body and rest = "[page2]"
        and errs = "JList [JObj [(''message'', JStr ''Bad credentials'')]]"
        and start_date = "\<lparr>year = 2022, month = 1, day = 1\<rparr>" and year_offset = 1
        and current_start = "\<lparr>year = 2023, month = 1, day = 1\<rparr>" and offsets = "[]"]
      get_contributions_query_JStr_projr [of "''octocat''" "''2023-01-01''" "''CUR1''"]
    by (simp add: world0_def)
qed

section \<open>No failure on errors\<close>

text \<open>
  C5. The claim that \<^verbatim>\<open>fetch_contributions\<close> fails with a protocol error whenever the
  response body carries an \<^verbatim>\<open>errors\<close> key does not hold: on such a body the call returns
  normally. What holds: on such a response the call does not fail; the payload under
  \<^verbatim>\<open>errors\<close> is printed, the response is the last one taken (no further request is
  sent), and the events gathered before it are returned, which is the empty list when
  it is the first response of the call.
\<close>

theorem errors_response_returns_normally:
  "(get_contributions_query username from_date cursor = Inr query \<and>
    responses w = data # rest \<and> obj_get data ''errors'' = Some errs \<longrightarrow>
    fetch_loop username header from_date contributions cursor w =
      (Inr contributions,
       w\<lparr>responses := rest, sent := sent w @ [query], console := console w @ [errs]\<rparr>))
   \<and>
   (responses w = data # rest \<and> obj_get data ''errors'' = Some errs \<longrightarrow>
    fetch_contributions username header from_date w =
      (Inr [],
       w\<lparr>calls := calls w @ [from_date],
         responses := rest,
         sent := sent w @ [projr (get_contributions_query username from_date JNull)],
         console := console w @ [errs]\<rparr>))"
proof (intro conjI impI)
  assume "get_contributions_query username from_date cursor = Inr query \<and>
    responses w = data # rest \<and> obj_get data ''errors'' = Some errs"
  then show "fetch_loop username header from_date contributions cursor w =
      (Inr contributions,
       w\<lparr>responses := rest, sent := sent w @ [query], console := console w @ [errs]\<rparr>)"
    by (simp add: fetch_loop_errors)
next
  assume a: "responses w = data # rest \<and> obj_get data ''errors'' = Some errs"
  let ?w0 = "w\<lparr>calls := calls w @ [from_date]\<rparr>"
  from a have "responses ?w0 = data # rest" "obj_get data ''errors'' = Some errs"
    by simp_all
  then show "fetch_contributions username header from_date w =
      (Inr [],
       w\<lparr>calls := calls w @ [from_date],
         responses := rest,
         sent := sent w @ [projr (get_contributions_query username from_date JNull)],
         console := console w @ [errs]\<rparr>)"
    unfolding fetch_contributions_def
    by (simp add: fetch_loop_errors [OF get_contributions_query_JNull_projr])
qed

theorem errors_response_returns_normally_witness:
  "obj_get errors_body ''errors'' = Some (JList [JObj [(''message'', JStr ''Bad credentials'')]]) \<and>
   fetch_loop ''octocat'' [] ''2023-01-01'' events1 (JStr ''CUR1'') (world0 [errors_body]) =
     (Inr events1,
      \<lparr>responses = [],
       sent = [projr (get_contributions_query ''octocat'' ''2023-01-01'' (JStr ''CUR1''))],
       console = [JList [JObj [(''message'', JStr ''Bad credentials'')]]],
       calls = []\<rparr>) \<and>
   fetch_contributions ''octocat'' [] ''2023-01-01'' (world0 [errors_body, page1]) =
     (Inr [],
      \<lparr>responses = [page1],
       sent = [projr (get_contributions_query ''octocat'' ''2023-01-01'' JNull)],
       console = [JList [JObj [(''message'', JStr ''Bad credentials'')]]],
       calls = [''2023-01-01'']\<rparr>)"
  using errors_body_errors
    errors_response_returns_normally [where username = "''octocat''" and from_date = "''2023-01-01''"
      and header = "[]" and cursor = "JStr ''CUR1''" and contributions = events1
      and query = "projr (get_contributions_query ''octocat'' ''2023-01-01'' (JStr ''CUR1''))"
      and w = "world0 [errors_body]" and data = errors_body and rest = "[]"
      and errs = "JList [JObj [(''message'', JStr ''Bad credentials'')]]", THEN conjunct1]
    errors_response_returns_normally [where username = "''octocat''" and from_date = "''2023-01-01''"
      and header = "[]"
      and w = "world0 [errors_body, page1]" and data = errors_body and rest = "[page1]"
      and errs = "JList [JObj [(''message'', JStr ''Bad credentials'')]]", THEN conjunct2]
    get_contributions_query_JStr_projr [of "''octocat''" "''2023-01-01''" "''CUR1''"]
  by (simp add: world0_def)

theorem errors_response_returns_normally_counterexample:
  "contains_str ''errors'' errors_body = Inr True \<and>
   fetch_contributions ''octocat'' [] ''2023-01-01'' (world0 [errors_body]) =
     (Inr [],
      \<lparr>responses = [],
       sent = [projr (get_contributions_query ''octocat'' ''2023-01-01'' JNull)],
       console = [JList [JObj [(''message'', JStr ''Bad credentials'')]]],
       calls = [''2023-01-01'']\<rparr>)"
proof -
  have "contains_str ''errors'' errors_body = Inr True"
    by (simp add: errors_body_def)
  moreover have "fetch_contributions ''octocat'' [] ''2023-01-01'' (world0 [errors_body]) =
     (Inr [],
      \<lparr>responses = [],
       sent = [projr (get_contributions_query ''octocat'' ''2023-01-01'' JNull)],
       console = [JList [JObj [(''message'', JStr ''Bad credentials'')]]],
       calls = [''2023-01-01'']\<rparr>)"
    unfolding fetch_contributions_def
    using fetch_loop_errors [OF get_contributions_query_JNull_projr _ errors_body_errors,
        where w = "world0 [errors_body]\<lparr>calls := calls (world0 [errors_body]) @ [''2023-01-01'']\<rparr>"
        and rest = "[]" and username = "''octocat''" and from_date = "''2023-01-01''"
        and header = "[]" and contributions = "[]"]
    by (simp add: world0_def)
  ultimately show ?thesis by simp
qed

section \<open>The cursor in the query\<close>

text \<open>
  C6. For every user name, start date and non-empty cursor, the text that
  \<^verbatim>\<open>get_contributions_query\<close> builds gives each of the five collections (the
  contributions of the commit-by-repository collection, issues, pull requests,
  pull-request reviews, repository creations) the same argument list: the first 100
  items after the cursor. Without a cursor (\<^verbatim>\<open>None\<close> or the empty string) each argument
  list asks for the first 100 items and nothing else, and the fixed text around the
  argument lists contains no \<^verbatim>\<open>after\<close>.
\<close>

theorem query_applies_cursor_to_every_collection:
  \<open>(c \<noteq> [] \<longrightarrow>
     get_contributions_query username from_date (JStr c) =
       Inr (query_layout username from_date (''(first: 100, after: "'' @ c @ ''")'')))
   \<and> get_contributions_query username from_date JNull =
       Inr (query_layout username from_date ''(first: 100)'')
   \<and> get_contributions_query username from_date (JStr []) =
       Inr (query_layout username from_date ''(first: 100)'')
   \<and> \<not> sublist ''after'' (query_layout [] [] [])\<close>
  using query_with_cursor [of c username from_date] query_without_cursor [of username from_date]
    layout_has_no_after
  by blast

theorem query_applies_cursor_to_every_collection_witness:
  \<open>''CUR1'' \<noteq> [] \<and>
   get_contributions_query ''octocat'' ''2023-01-01'' (JStr ''CUR1'') =
     Inr (query_layout ''octocat'' ''2023-01-01'' ''(first: 100, after: "CUR1")'') \<and>
   get_contributions_query ''octocat'' ''2023-01-01'' JNull =
     Inr (query_layout ''octocat'' ''2023-01-01'' ''(first: 100)'')\<close>
  using query_applies_cursor_to_every_collection [of "''CUR1''" "''octocat''" "''2023-01-01''"]
  by simp

section \<open>The events that are extracted\<close>

text \<open>
  C7. \<^verbatim>\<open>extract_contributions\<close> returns the event nodes of the commit-by-repository
  collection (repository by repository), then those of the issue collection, then
  those of the pull-request collection. Its result depends on the values under these
  three keys only: the review and repository-creation collections, the calendar and
  the restricted count have no part in it.
\<close>

theorem extract_contributions_three_collections:
  "(obj_get cd ''commitContributionsByRepository'' = Some (JList repos) \<and>
    list_all2 (\<lambda>r ns. obj_path r [''contributions'', ''nodes''] = Some (JList ns)) repos nss \<and>
    obj_path cd [''issueContributions'', ''nodes''] = Some (JList issue_nodes) \<and>
    obj_path cd [''pullRequestContributions'', ''nodes''] = Some (JList pr_nodes) \<longrightarrow>
    extract_contributions cd = Inr (concat nss @ issue_nodes @ pr_nodes))
   \<and>
   (map_of kvs' ''commitContributionsByRepository'' = map_of kvs ''commitContributionsByRepository'' \<and>
    map_of kvs' ''issueContributions'' = map_of kvs ''issueContributions'' \<and>
    map_of kvs' ''pullRequestContributions'' = map_of kvs ''pullRequestContributions'' \<longrightarrow>
    extract_contributions (JObj kvs') = extract_contributions (JObj kvs))"
proof (intro conjI impI)
  assume "obj_get cd ''commitContributionsByRepository'' = Some (JList repos) \<and>
    list_all2 (\<lambda>r ns. obj_path r [''contributions'', ''nodes''] = Some (JList ns)) repos nss \<and>
    obj_path cd [''issueContributions'', ''nodes''] = Some (JList issue_nodes) \<and>
    obj_path cd [''pullRequestContributions'', ''nodes''] = Some (JList pr_nodes)"
  then show "extract_contributions cd = Inr (concat nss @ issue_nodes @ pr_nodes)"
    by (intro extract_contributions_view [of cd repos nss issue_nodes pr_nodes]) blast+
next
  assume "map_of kvs' ''commitContributionsByRepository'' = map_of kvs ''commitContributionsByRepository'' \<and>
    map_of kvs' ''issueContributions'' = map_of kvs ''issueContributions'' \<and>
    map_of kvs' ''pullRequestContributions'' = map_of kvs ''pullRequestContributions''"
  then show "extract_contributions (JObj kvs') = extract_contributions (JObj kvs)"
    by (intro extract_contributions_only_three) blast+
qed

theorem extract_contributions_three_collections_witness:
  "extract_contributions collection1 = Inr events1 \<and>
   extract_contributions collection1_other = extract_contributions collection1"
proof -
  let ?a = "event ''2023-01-02T10:00:00Z''" and ?b = "event ''2023-01-02T11:00:00Z''"
  let ?i = "event ''2023-01-03T09:00:00Z''"
  let ?repo = "repo_entry (connection [?a, ?b] True (JStr ''CUR1''))"
  have 1: "obj_get collection1 ''commitContributionsByRepository'' = Some (JList [?repo])"
    by (simp add: collection1_def collection_def collection_fields_def)
  have 2: "list_all2 (\<lambda>r ns. obj_path r [''contributions'', ''nodes''] = Some (JList ns))
      [?repo] [[?a, ?b]]"
    by (simp add: repo_entry_def connection_def)
  have 3: "obj_path collection1 [''issueContributions'', ''nodes''] = Some (JList [?i])"
    by (simp add: collection1_def collection_def collection_fields_def connection_def)
  have 4: "obj_path collection1 [''pullRequestContributions'', ''nodes''] = Some (JList [])"
    by (simp add: collection1_def collection_def collection_fields_def connection_def)
  have "extract_contributions collection1 = Inr (concat [[?a, ?b]] @ [?i] @ [])"
    using 1 2 3 4
      extract_contributions_three_collections [where cd = collection1 and repos = "[?repo]"
        and nss = "[[?a, ?b]]" and issue_nodes = "[?i]" and pr_nodes = "[]", THEN conjunct1]
    by (elim impE) (intro conjI, assumption+)
  moreover have "extract_contributions collection1_other = extract_contributions collection1"
    unfolding collection1_other_def collection1_def collection_def
    by (rule extract_contributions_three_collections [THEN conjunct2, rule_format])
       (simp add: collection_fields_def)
  ultimately show ?thesis
    by (simp add: events1_def)
qed

section \<open>The cap\<close>

text \<open>
  C8. The cap applied to every cell of the grid before it is drawn clamps the value to
  at most 10: it is idempotent, and 10, 11 and 25 all become 10. The cells of the grid
  that \<^verbatim>\<open>generate_plotly_heatmap\<close> hands on are the cells of the labelled pivot with the
  cap applied to each of them, so none of them exceeds 10.
\<close>

theorem cap_clamps_idempotent:
  "cap x = (if x \<le> 10 then x else 10) \<and> cap (cap x) = cap x \<and>
   cap 10 = 10 \<and> cap 11 = 10 \<and> cap 25 = 10 \<and>
   (heatmap_data dates = Inr grid \<and> set_index grid weekday_labels = Inr labelled \<longrightarrow>
    generate_plotly_heatmap dates output_file =
      Inr \<lparr>index = index labelled, columns = columns labelled,
           cells = map (map cap) (cells labelled)\<rparr>) \<and>
   (generate_plotly_heatmap dates output_file = Inr f \<longrightarrow>
    (\<forall>r \<in> set (cells f). \<forall>x \<in> set r. x \<le> 10))"
proof (intro conjI impI)
  assume "heatmap_data dates = Inr grid \<and> set_index grid weekday_labels = Inr labelled"
  then show "generate_plotly_heatmap dates output_file =
      Inr \<lparr>index = index labelled, columns = columns labelled,
           cells = map (map cap) (cells labelled)\<rparr>"
    by (simp add: generate_plotly_heatmap_cells)
next
  assume "generate_plotly_heatmap dates output_file = Inr f"
  then show "\<forall>r \<in> set (cells f). \<forall>x \<in> set r. x \<le> 10"
    by (rule generate_plotly_heatmap_capped)
qed (simp_all add: cap_def)

theorem cap_clamps_idempotent_witness:
  "heatmap_data busy_week_dates =
     Inr \<lparr>index = [0, 1, 2, 3, 4], columns = [(2023, 1)], cells = [[12], [1], [1], [1], [1]]\<rparr> \<and>
   set_index \<lparr>index = [0, 1, 2, 3, 4 :: int], columns = [(2023, 1)],
              cells = [[12], [1], [1], [1], [1]]\<rparr> weekday_labels =
     Inr \<lparr>index = weekday_labels, columns = [(2023, 1)], cells = [[12], [1], [1], [1], [1]]\<rparr> \<and>
   generate_plotly_heatmap busy_week_dates ''out.html'' =
     Inr \<lparr>index = weekday_labels, columns = [(2023, 1)], cells = [[10], [1], [1], [1], [1]]\<rparr>"
proof -
  have g: "heatmap_data busy_week_dates =
     Inr \<lparr>index = [0, 1, 2, 3, 4], columns = [(2023, 1)], cells = [[12], [1], [1], [1], [1]]\<rparr>"
    by code_simp
  have l: "set_index \<lparr>index = [0, 1, 2, 3, 4 :: int], columns = [(2023, 1)],
              cells = [[12], [1], [1], [1], [1]]\<rparr> weekday_labels =
     Inr \<lparr>index = weekday_labels, columns = [(2023, 1)], cells = [[12], [1], [1], [1], [1]]\<rparr>"
    by (simp add: set_index_def weekday_labels_def)
  show ?thesis
    using g l
      cap_clamps_idempotent [where x = 12 and dates = busy_week_dates
        and grid = "\<lparr>index = [0, 1, 2, 3, 4], columns = [(2023, 1)],
                      cells = [[12], [1], [1], [1], [1]]\<rparr>"
        and labelled = "\<lparr>index = weekday_labels, columns = [(2023, 1)],
                          cells = [[12], [1], [1], [1], [1]]\<rparr>"
        and f = "\<lparr>index = weekday_labels, columns = [(2023, 1)],
                   cells = [[10], [1], [1], [1], [1]]\<rparr>"
        and output_file = "''out.html''"]
    by (simp add: cap_def)
qed

section \<open>The page info that is read\<close>



section \<open>The row labels of the grid\<close>

text \<open>
  C10. The claim that \<^verbatim>\<open>generate_plotly_heatmap\<close> fails with the length mismatch whenever
  fewer than five distinct weekdays remain, the empty list included, does not hold: a
  pivot without rows has no columns either, and on such a frame the five labels are
  accepted. What holds: the five labels Monday to Friday are assigned without a check
  of the function's own. For timestamps that parse, the call fails with the length
  mismatch (a \<^verbatim>\<open>ValueError\<close>) exactly when at least one and fewer than five distinct
  weekdays from Monday to Friday occur among them. When none occurs (the empty list,
  weekend days only, the run of a start and end date of the same calendar year, which
  fetches nothing) the labels become the index of a grid of five empty rows and no
  length mismatch arises.
\<close>

theorem generate_plotly_heatmap_label_mismatch:
  "(pd_to_datetime dates = Inr ts \<longrightarrow>
    (generate_plotly_heatmap dates output_file = Inl ValueError \<longleftrightarrow>
     0 < card (set (filter (\<lambda>d. d < 5) (map weekday ts))) \<and>
     card (set (filter (\<lambda>d. d < 5) (map weekday ts))) < 5))
   \<and>
   (pd_to_datetime dates = Inr ts \<and>
    card (set (filter (\<lambda>d. d < 5) (map weekday ts))) = 0 \<longrightarrow>
    generate_plotly_heatmap dates output_file =
      Inr \<lparr>index = weekday_labels, columns = [], cells = [[], [], [], [], []]\<rparr>)
   \<and>
   generate_plotly_heatmap [] output_file =
     Inr \<lparr>index = weekday_labels, columns = [], cells = [[], [], [], [], []]\<rparr>
   \<and>
   (year end_date = year start_date \<longrightarrow>
    (case fetch_all_contributions username header start_date end_date w of
       (Inl e, w') \<Rightarrow> Inl e
     | (Inr contributions_data, w') \<Rightarrow>
         andthen (process_contributions contributions_data) (\<lambda>contribution_dates.
           generate_plotly_heatmap contribution_dates output_file)) =
      Inr \<lparr>index = weekday_labels, columns = [], cells = [[], [], [], [], []]\<rparr>)"
proof (intro conjI impI)
  assume "pd_to_datetime dates = Inr ts"
  then show "generate_plotly_heatmap dates output_file = Inl ValueError \<longleftrightarrow>
     0 < card (set (filter (\<lambda>d. d < 5) (map weekday ts))) \<and>
     card (set (filter (\<lambda>d. d < 5) (map weekday ts))) < 5"
    by (rule generate_plotly_heatmap_fails_iff)
next
  assume "pd_to_datetime dates = Inr ts \<and>
    card (set (filter (\<lambda>d. d < 5) (map weekday ts))) = 0"
  then show "generate_plotly_heatmap dates output_file =
      Inr \<lparr>index = weekday_labels, columns = [], cells = [[], [], [], [], []]\<rparr>"
    by (intro generate_plotly_heatmap_no_rows [of dates ts]) blast+
next
  show "generate_plotly_heatmap [] output_file =
     Inr \<lparr>index = weekday_labels, columns = [], cells = [[], [], [], [], []]\<rparr>"
    by (rule generate_plotly_heatmap_empty)
next
  assume "year end_date = year start_date"
  then have "fetch_all_contributions username header start_date end_date w = (Inr [], w)"
    by (simp add: fetch_all_contributions_def py_range_def)
  then show "(case fetch_all_contributions username header start_date end_date w of
       (Inl e, w') \<Rightarrow> Inl e
     | (Inr contributions_data, w') \<Rightarrow>
         andthen (process_contributions contributions_data) (\<lambda>contribution_dates.
           generate_plotly_heatmap contribution_dates output_file)) =
      Inr \<lparr>index = weekday_labels, columns = [], cells = [[], [], [], [], []]\<rparr>"
    by (simp add: generate_plotly_heatmap_empty)
qed

theorem generate_plotly_heatmap_label_mismatch_witness:
  "pd_to_datetime monday_saturday_dates =
     Inr [at_hour 2023 1 2 10, at_hour 2023 1 2 11, at_hour 2023 1 7 9] \<and>
   generate_plotly_heatmap monday_saturday_dates ''out.html'' = Inl ValueError \<and>
   generate_plotly_heatmap full_week_dates ''out.html'' \<noteq> Inl ValueError \<and>
   pd_to_datetime weekend_dates = Inr [at_hour 2023 1 7 9, at_hour 2023 1 8 9] \<and>
   generate_plotly_heatmap weekend_dates ''out.html'' =
     Inr \<lparr>index = weekday_labels, columns = [], cells = [[], [], [], [], []]\<rparr> \<and>
   year end_2021 = year start_2021 \<and>
   (case fetch_all_contributions ''octocat'' [] start_2021 end_2021 (world0 [page1]) of
      (Inl e, w') \<Rightarrow> Inl e
    | (Inr contributions_data, w') \<Rightarrow>
        andthen (process_contributions contributions_data) (\<lambda>contribution_dates.
          generate_plotly_heatmap contribution_dates ''out.html'')) =
     Inr \<lparr>index = weekday_labels, columns = [], cells = [[], [], [], [], []]\<rparr>"
proof -
  have y: "year end_2021 = year start_2021"
    by (simp add: end_2021_def start_2021_def)
  show ?thesis
    using y monday_saturday_parsed full_week_parsed weekend_parsed
      monday_saturday_weekdays full_week_weekdays weekend_weekdays
      generate_plotly_heatmap_label_mismatch [where dates = monday_saturday_dates
        and ts = "[at_hour 2023 1 2 10, at_hour 2023 1 2 11, at_hour 2023 1 7 9]"
        and output_file = "''out.html''", THEN conjunct1]
      generate_plotly_heatmap_label_mismatch [where dates = full_week_dates
        and ts = "[at_hour 2023 1 2 10, at_hour 2023 1 2 10, at_hour 2023 1 3 10,
                   at_hour 2023 1 4 10, at_hour 2023 1 5 10, at_hour 2023 1 6 10,
                   at_hour 2023 1 13 10]"
        and output_file = "''out.html''", THEN conjunct1]
      generate_plotly_heatmap_label_mismatch [where dates = weekend_dates
        and ts = "[at_hour 2023 1 7 9, at_hour 2023 1 8 9]"
        and output_file = "''out.html''", THEN conjunct2, THEN conjunct1]
      generate_plotly_heatmap_label_mismatch [where output_file = "''out.html''"
        and start_date = start_2021 and end_date = end_2021 and username = "''octocat''"
        and header = "[]" and w = "world0 [page1]",
        THEN conjunct2, THEN conjunct2, THEN conjunct2]
    by simp
qed

theorem generate_plotly_heatmap_label_mismatch_counterexample:
  "card (set (filter (\<lambda>d. d < 5) (map weekday []))) < 5 \<and>
   generate_plotly_heatmap [] ''out.html'' =
     Inr \<lparr>index = [''Monday'', ''Tuesday'', ''Wednesday'', ''Thursday'', ''Friday''],
          columns = [], cells = [[], [], [], [], []]\<rparr>"
  by (simp add: generate_plotly_heatmap_def heatmap_data_def set_index_def pivot_table_def
      groupby_date_sum_def)

end
